theory Spec2Isabelle
  imports Main
begin

section \<open>JavaScript values and primitive conversions\<close>

text \<open>
  The SDK is TypeScript running on a JavaScript host. The values that flow through the
  core (request bodies, parsed JSON responses) are modelled by one datatype. A number is
  an integer here (status codes, limits, offsets, timeouts); an object is the list of its
  own properties in enumeration order, with pairwise different keys.
\<close>

datatype jsval =
    Undefined
  | Null
  | Bool bool
  | Num int
  | Str string
  | Arr "jsval list"
  | Obj "(string \<times> jsval) list"

text \<open>An exception value of the host: \<open>instanceof DOMException\<close>, \<open>name\<close>, \<open>message\<close>.\<close>

datatype js_exn = JsExn (is_dom: bool) (ename: string) (emsg: string)

definition TypeError :: "string \<Rightarrow> js_exn" where
  "TypeError m = JsExn False ''TypeError'' m"

text \<open>Decimal rendering of a number, as \<open>String(n)\<close> and template literals produce it.\<close>

definition digit_char :: "int \<Rightarrow> char" where
  "digit_char d = char_of (48 + d)"

function show_digits :: "int \<Rightarrow> string" where
  "show_digits n =
     (if n < 10 then [digit_char n] else show_digits (n div 10) @ [digit_char (n mod 10)])"
  by pat_completeness auto
termination
  by (relation "measure nat") auto

declare show_digits.simps [simp del]

definition show_int :: "int \<Rightarrow> string" where
  "show_int i = (if i < 0 then CHR ''-'' # show_digits (- i) else show_digits i)"

text \<open>JavaScript truthiness, the test behind \<open>if (x)\<close>, \<open>x && y\<close> and \<open>x || y\<close>.\<close>

fun truthy :: "jsval \<Rightarrow> bool" where
  "truthy Undefined = False"
| "truthy Null = False"
| "truthy (Bool b) = b"
| "truthy (Num n) = (n \<noteq> 0)"
| "truthy (Str s) = (s \<noteq> [])"
| "truthy (Arr _) = True"
| "truthy (Obj _) = True"

text \<open>
  Property read \<open>v.k\<close> (and \<open>v?.k\<close>) for a key that no prototype defines: the own
  property of an object, \<open>undefined\<close> otherwise. A JSON value has no other properties
  under the names read by the core (\<open>success\<close>, \<open>data\<close>, \<open>message\<close>, \<open>error\<close>).
\<close>

fun get_prop :: "jsval \<Rightarrow> string \<Rightarrow> jsval" where
  "get_prop (Obj kvs) k = (case map_of kvs k of Some v \<Rightarrow> v | None \<Rightarrow> Undefined)"
| "get_prop _ k = Undefined"

fun has_own :: "jsval \<Rightarrow> string \<Rightarrow> bool" where
  "has_own (Obj kvs) k = (map_of kvs k \<noteq> None)"
| "has_own _ k = False"

text \<open>
  \<open>ToString\<close>, as a template literal \<open>`${v}`\<close> applies it. It is partial: an object whose own
  property \<open>toString\<close> shadows \<open>Object.prototype.toString\<close> with a JSON value (never
  callable) cannot be converted, and the conversion throws a TypeError (\<open>None\<close>). An array
  joins its elements with commas, \<open>null\<close> and \<open>undefined\<close> elements as the empty string.
\<close>

fun join_with :: "string \<Rightarrow> string list \<Rightarrow> string" where
  "join_with sep [] = []"
| "join_with sep [x] = x"
| "join_with sep (x # y # ys) = x @ sep @ join_with sep (y # ys)"

fun sequence_opt :: "'a option list \<Rightarrow> 'a list option" where
  "sequence_opt [] = Some []"
| "sequence_opt (None # _) = None"
| "sequence_opt (Some x # xs) = (case sequence_opt xs of None \<Rightarrow> None | Some ys \<Rightarrow> Some (x # ys))"

fun to_string :: "jsval \<Rightarrow> string option" where
  "to_string Undefined = Some ''undefined''"
| "to_string Null = Some ''null''"
| "to_string (Bool b) = Some (if b then ''true'' else ''false'')"
| "to_string (Num n) = Some (show_int n)"
| "to_string (Str s) = Some s"
| "to_string (Arr xs) =
     (case sequence_opt (map (\<lambda>x. if x = Null \<or> x = Undefined then Some [] else to_string x) xs) of
        None \<Rightarrow> None
      | Some ss \<Rightarrow> Some (join_with '','' ss))"
| "to_string (Obj kvs) =
     (if map_of kvs ''toString'' \<noteq> None then None else Some ''[object Object]'')"

section \<open>Query parameters\<close>

text \<open>
  A \<open>Date\<close> is its time value, the milliseconds since the epoch. The resource modules
  validate dates with \<open>z.date()\<close> before they format them, which rejects an invalid date,
  so only valid dates are modelled.
\<close>

datatype jsdate = JsDate int

definition pad :: "nat \<Rightarrow> int \<Rightarrow> string" where
  "pad w n = replicate (w - length (show_digits n)) CHR ''0'' @ show_digits n"

text \<open>The civil date of a day number counted from 1970-01-01 (proleptic Gregorian).\<close>

definition civil_from_days :: "int \<Rightarrow> int \<times> int \<times> int" where
  "civil_from_days days =
     (let z = days + 719468;
          era = z div 146097;
          doe = z - era * 146097;
          yoe = (doe - doe div 1460 + doe div 36524 - doe div 146096) div 365;
          doy = doe - (365 * yoe + yoe div 4 - yoe div 100);
          mp = (5 * doy + 2) div 153;
          d = doy - (153 * mp + 2) div 5 + 1;
          m = (if mp < 10 then mp + 3 else mp - 9);
          y = yoe + era * 400 + (if m \<le> 2 then 1 else 0)
      in (y, m, d))"

text \<open>\<open>Date.prototype.toISOString\<close>: \<open>YYYY-MM-DDTHH:mm:ss.sssZ\<close>, in UTC.\<close>

definition toISOString :: "jsdate \<Rightarrow> string" where
  "toISOString dt =
     (case dt of JsDate t \<Rightarrow>
        let ms = t mod 86400000;
            (y, m, d) = civil_from_days (t div 86400000);
            year = (if 0 \<le> y \<and> y \<le> 9999 then pad 4 y
                    else (if y < 0 then CHR ''-'' else CHR ''+'') # pad 6 \<bar>y\<bar>)
        in year @ ''-'' @ pad 2 m @ ''-'' @ pad 2 d @ ''T''
           @ pad 2 (ms div 3600000) @ '':'' @ pad 2 ((ms div 60000) mod 60) @ '':''
           @ pad 2 ((ms div 1000) mod 60) @ ''.'' @ pad 3 (ms mod 1000) @ ''Z'')"

text \<open>
  The value type of \<open>RequestOptions.queryParams\<close>:
  \<open>string | number | boolean | undefined | null\<close>.
\<close>

datatype qvalue = QUndefined | QNull | QBool bool | QNum int | QStr string

text \<open>
  What a resource module hands to \<open>formatQueryParams\<close> (declared \<open>Record<string, any>\<close>):
  the validated parameters, each a \<open>Date\<close> or one of the values above.
\<close>

datatype pvalue = PDate jsdate | PVal qvalue

text \<open>
  \<open>formatQueryParams\<close> (src/core/utils.ts): a \<open>Date\<close> becomes its ISO string, any other
  value that is neither \<open>undefined\<close> nor \<open>null\<close> is copied, every other entry is left out.
\<close>

fun formatQueryParams :: "(string \<times> pvalue) list \<Rightarrow> (string \<times> qvalue) list" where
  "formatQueryParams [] = []"
| "formatQueryParams ((key, PDate d) # params) = (key, QStr (toISOString d)) # formatQueryParams params"
| "formatQueryParams ((key, PVal v) # params) =
     (if v \<noteq> QUndefined \<and> v \<noteq> QNull then (key, v) # formatQueryParams params
      else formatQueryParams params)"

text \<open>\<open>String(value)\<close> on a query value.\<close>

fun qvalue_String :: "qvalue \<Rightarrow> string" where
  "qvalue_String QUndefined = ''undefined''"
| "qvalue_String QNull = ''null''"
| "qvalue_String (QBool b) = (if b then ''true'' else ''false'')"
| "qvalue_String (QNum n) = show_int n"
| "qvalue_String (QStr s) = s"

text \<open>
  The loop of \<open>HttpClient.request\<close> over \<open>Object.entries(queryParams)\<close>: every entry
  whose value is neither \<open>undefined\<close> nor \<open>null\<close> is appended to \<open>url.searchParams\<close>
  as \<open>(key, String(value))\<close>. The argument \<open>sp\<close> is the parameter list of the URL so far.
\<close>

fun append_query :: "(string \<times> string) list \<Rightarrow> (string \<times> qvalue) list \<Rightarrow> (string \<times> string) list" where
  "append_query sp [] = sp"
| "append_query sp ((key, v) # rest) =
     (if v \<noteq> QUndefined \<and> v \<noteq> QNull then append_query (sp @ [(key, qvalue_String v)]) rest
      else append_query sp rest)"

section \<open>Header lists\<close>

text \<open>
  The \<open>Headers\<close> class of the Fetch standard. A header list holds (name, value) pairs;
  names are compared without regard to ASCII case and are kept lower-cased here. A name
  must be an HTTP token; a value is stripped of leading and trailing HTTP whitespace and
  must then contain neither NUL, nor LF, nor CR. \<open>append\<close> and \<open>set\<close> throw a TypeError on
  an invalid name or value (\<open>None\<close>).
\<close>

type_synonym headers = "(string \<times> string) list"

definition is_tchar :: "char \<Rightarrow> bool" where
  "is_tchar c =
     (let n = (of_char c :: int)
      in (48 \<le> n \<and> n \<le> 57) \<or> (65 \<le> n \<and> n \<le> 90) \<or> (97 \<le> n \<and> n \<le> 122)
         \<or> List.member [33, 35, 36, 37, 38, 39, 42, 43, 45, 46, 94, 95, 96, 124, 126] n)"

definition valid_header_name :: "string \<Rightarrow> bool" where
  "valid_header_name n = (n \<noteq> [] \<and> list_all is_tchar n)"

definition http_whitespace :: "char \<Rightarrow> bool" where
  "http_whitespace c = List.member [9, 10, 13, 32] (of_char c :: int)"

definition normalize_value :: "string \<Rightarrow> string" where
  "normalize_value v = rev (dropWhile http_whitespace (rev (dropWhile http_whitespace v)))"

definition valid_header_value :: "string \<Rightarrow> bool" where
  "valid_header_value v = list_all (\<lambda>c. \<not> List.member [0, 10, 13] (of_char c :: int)) v"

definition lower_char :: "char \<Rightarrow> char" where
  "lower_char c =
     (let n = (of_char c :: int) in if 65 \<le> n \<and> n \<le> 90 then char_of (n + 32) else c)"

definition lowercase :: "string \<Rightarrow> string" where
  "lowercase s = map lower_char s"

definition headers_has :: "headers \<Rightarrow> string \<Rightarrow> bool" where
  "headers_has h n = List.member (map fst h) (lowercase n)"

text \<open>\<open>get\<close>: the values under the name, joined by a comma and a space; \<open>null\<close> if none.\<close>

definition headers_get :: "headers \<Rightarrow> string \<Rightarrow> string option" where
  "headers_get h n =
     (case filter (\<lambda>e. fst e = lowercase n) h of
        [] \<Rightarrow> None
      | e # es \<Rightarrow> Some (join_with '', '' (map snd (e # es))))"

definition headers_delete :: "headers \<Rightarrow> string \<Rightarrow> headers" where
  "headers_delete h n = filter (\<lambda>e. fst e \<noteq> lowercase n) h"

definition headers_append :: "headers \<Rightarrow> string \<Rightarrow> string \<Rightarrow> headers option" where
  "headers_append h n v =
     (if valid_header_name n \<and> valid_header_value (normalize_value v)
      then Some (h @ [(lowercase n, normalize_value v)])
      else None)"

text \<open>
  \<open>set\<close>: the first header of that name takes the value and the others are removed;
  a new name is appended.
\<close>

fun set_first :: "headers \<Rightarrow> string \<Rightarrow> string \<Rightarrow> headers" where
  "set_first [] n v = [(n, v)]"
| "set_first (e # es) n v =
     (if fst e = n then (n, v) # filter (\<lambda>e'. fst e' \<noteq> n) es else e # set_first es n v)"

definition headers_set :: "headers \<Rightarrow> string \<Rightarrow> string \<Rightarrow> headers option" where
  "headers_set h n v =
     (if valid_header_name n \<and> valid_header_value (normalize_value v)
      then Some (set_first h (lowercase n) (normalize_value v))
      else None)"

text \<open>\<open>new Headers(record)\<close>: every entry of the record is appended, in order.\<close>

fun new_Headers_from :: "headers \<Rightarrow> (string \<times> string) list \<Rightarrow> headers option" where
  "new_Headers_from h [] = Some h"
| "new_Headers_from h ((n, v) # rest) =
     (case headers_append h n v of None \<Rightarrow> None | Some h' \<Rightarrow> new_Headers_from h' rest)"

definition new_Headers :: "(string \<times> string) list \<Rightarrow> headers option" where
  "new_Headers init = new_Headers_from [] init"

text \<open>
  Object spread \<open>{ ...a, ...b }\<close> on records of strings: a key of \<open>b\<close> that \<open>a\<close> has
  keeps its place and takes the value of \<open>b\<close>, a new key goes to the end.
\<close>

fun obj_put :: "(string \<times> 'a) list \<Rightarrow> string \<Rightarrow> 'a \<Rightarrow> (string \<times> 'a) list" where
  "obj_put [] k v = [(k, v)]"
| "obj_put (e # es) k v = (if fst e = k then (k, v) # es else e # obj_put es k v)"

fun obj_spread :: "(string \<times> 'a) list \<Rightarrow> (string \<times> 'a) list \<Rightarrow> (string \<times> 'a) list" where
  "obj_spread a [] = a"
| "obj_spread a ((k, v) # b) = obj_spread (obj_put a k v) b"

text \<open>\<open>String.prototype.includes\<close> and \<open>startsWith\<close>.\<close>

fun starts_with :: "string \<Rightarrow> string \<Rightarrow> bool" where
  "starts_with s [] = True"
| "starts_with [] (p # ps) = False"
| "starts_with (c # cs) (p # ps) = (c = p \<and> starts_with cs ps)"

fun str_includes :: "string \<Rightarrow> string \<Rightarrow> bool" where
  "str_includes [] sub = (sub = [])"
| "str_includes (c # cs) sub = (starts_with (c # cs) sub \<or> str_includes cs sub)"

section \<open>Errors and configuration\<close>

text \<open>An issue of a failed zod validation: its code, the path of the field, its message.\<close>

datatype zod_issue = ZodIssue (code: string) (path: "string list") (message: string)

text \<open>
  What a call can throw: the error classes of src/core/errors.ts, the \<open>ZodError\<close> of
  \<open>schema.parse\<close>, or an exception of the host that nothing catches. \<open>SDKError\<close> stands for \<open>new SDKError(...)\<close> itself, the
  Internal kind of the specification. The issues of a \<open>ValidationError\<close> are optional.
\<close>

datatype thrown =
    SDKError string
  | APIError string int jsval headers
  | AuthenticationError string
  | ValidationError string "zod_issue list option"
  | NetworkError string js_exn
  | ZodError "zod_issue list"
  | HostError js_exn

text \<open>\<open>HttpClientConfig\<close>. The timeout is a number of milliseconds.\<close>

record config =
  baseURL :: string
  apiKey :: "string option"
  authToken :: "string option"
  organizationId :: "string option"
  defaultHeaders :: "(string \<times> string) list option"
  timeout :: "int option"

text \<open>
  An \<open>AbortSignal\<close> over one call: it never fires while the call runs (\<open>None\<close>), or it
  fires with a reason, either before \<open>fetch\<close> settles or later, after \<open>fetch\<close> has
  resolved and while the body of the response is being read. \<open>aborted\<close> is the flag of
  the signal as the \<open>catch\<close> around \<open>fetch\<close> reads it.
\<close>

datatype phase = InFlight | ReadingBody

datatype abort_signal = AbortSignal (fires: "(phase \<times> js_exn) option")

definition aborted :: "abort_signal \<Rightarrow> bool" where
  "aborted s = (case fires s of Some (InFlight, _) \<Rightarrow> True | _ \<Rightarrow> False)"

definition aborted_late :: "abort_signal \<Rightarrow> bool" where
  "aborted_late s = (case fires s of Some (ReadingBody, _) \<Rightarrow> True | _ \<Rightarrow> False)"

text \<open>
  A request body (\<open>body?: any\<close>): a JavaScript value, or one of the host's payload
  objects, which the model does not look into.
\<close>

datatype req_body = JsBody jsval | FormData nat | URLSearchParams nat | Blob nat

datatype http_method = GET | POST | PUT | PATCH | DELETE | OPTIONS | HEAD

text \<open>\<open>RequestOptions\<close>. An absent body is \<open>JsBody Undefined\<close>.\<close>

record options =
  http_method :: "http_method option"
  queryParams :: "(string \<times> qvalue) list option"
  body :: req_body
  headers :: "(string \<times> string) list option"
  signal :: "abort_signal option"
  expectedStatus :: "int option"

text \<open>The body handed to \<open>fetch\<close>: the caller's payload as it is, or JSON text.\<close>

datatype fetch_body = Passed req_body | JsonText string

record url =
  href :: string
  searchParams :: "(string \<times> string) list"

record fetch_init =
  fetch_url :: url
  fetch_method :: http_method
  fetch_headers :: headers
  fetch_body :: "fetch_body option"
  fetch_signal :: "abort_signal option"

text \<open>
  A \<open>Response\<close>, as the core reads it: the status line, the headers, and what
  \<open>response.json()\<close> and \<open>response.text()\<close> settle with (\<open>Inl\<close>: they reject).
\<close>

record response =
  status :: int
  statusText :: string
  resp_headers :: headers
  json_result :: "js_exn + jsval"
  text_result :: "js_exn + string"

definition ok :: "response \<Rightarrow> bool" where
  "ok r = (200 \<le> status r \<and> status r \<le> 299)"

datatype fetch_outcome = Rejected js_exn | Resolved response

text \<open>
  The host and what it does during one call: \<open>new URL(s)\<close> (\<open>None\<close>: invalid, a
  TypeError; otherwise the parameters the string already carries), \<open>JSON.stringify\<close>
  (\<open>None\<close>: it throws), the message of the \<open>AbortError\<close> that \<open>controller.abort()\<close>
  creates, the uuid test of the zod library, the time value of \<open>new Date(s)\<close> (\<open>None\<close>:
  an invalid date), the delays that \<open>AbortSignal.timeout\<close> accepts (it throws on any other), when the timer of \<open>AbortSignal.timeout\<close>
  expires during the call, if it does, and the outcome of the exchange when nothing
  aborts it.
\<close>

record host =
  url_parse :: "string \<Rightarrow> (string \<times> string) list option"
  json_stringify :: "jsval \<Rightarrow> string option"
  abort_message :: string
  is_uuid :: "string \<Rightarrow> bool"
  date_parse :: "string \<Rightarrow> int option"
  timer_accepts :: "int \<Rightarrow> bool"
  timer_fires :: "phase option"
  network :: "fetch_init \<Rightarrow> fetch_outcome"

text \<open>What a call does besides returning: the log of its effects, in order.\<close>

datatype event = Warn string | Fetch fetch_init | ReadJson | ReadText

definition str_truthy :: "string option \<Rightarrow> bool" where
  "str_truthy s = (case s of None \<Rightarrow> False | Some v \<Rightarrow> v \<noteq> [])"

definition num_truthy :: "int option \<Rightarrow> bool" where
  "num_truthy n = (case n of None \<Rightarrow> False | Some v \<Rightarrow> v \<noteq> 0)"

text \<open>
  The constructor of \<open>HttpClient\<close>: a base URL is required; one trailing slash is removed
  from it; the default headers start with the JSON content type.
\<close>

definition strip_trailing_slash :: "string \<Rightarrow> string" where
  "strip_trailing_slash s = (if s \<noteq> [] \<and> last s = CHR ''/'' then butlast s else s)"

definition new_HttpClient :: "config \<Rightarrow> (thrown + config) \<times> event list" where
  "new_HttpClient c =
     (if baseURL c = [] then (Inl (SDKError ''baseURL is required in HttpClientConfig''), [])
      else
        (Inr (c\<lparr>baseURL := strip_trailing_slash (baseURL c),
                defaultHeaders := Some (obj_spread [(''Content-Type'', ''application/json'')]
                                          (case defaultHeaders c of None \<Rightarrow> [] | Some d \<Rightarrow> d))\<rparr>),
         if str_truthy (apiKey c) \<and> \<not> str_truthy (organizationId c)
         then [Warn ''Warning: apiKey provided without organizationId. Most API Key endpoints require X-Organization-ID.'']
         else []))"

section \<open>HttpClient.request: building the request\<close>

text \<open>
  The URL: the base URL and the path, with a slash put in front of a path that has none;
  then the query parameters are appended.
\<close>

definition build_url :: "host \<Rightarrow> config \<Rightarrow> string \<Rightarrow> (string \<times> qvalue) list option \<Rightarrow> thrown + url" where
  "build_url hst cfg path' qp =
     (let s = baseURL cfg @ (if starts_with path' ''/'' then path' else ''/'' @ path')
      in case url_parse hst s of
           None \<Rightarrow> Inl (HostError (TypeError ''Invalid URL''))
         | Some sp \<Rightarrow>
             Inr \<lparr>href = s,
                  searchParams = (case qp of None \<Rightarrow> sp | Some params \<Rightarrow> append_query sp params)\<rparr>)"

text \<open>
  Authentication and organization headers. With an API key: the key header, the
  organization header if an organization is configured (a warning otherwise), and any
  \<open>Authorization\<close> header is deleted. Otherwise, with a token: the bearer header, and the
  organization header unless one is already there. The tests are JavaScript truthiness:
  an empty string counts as not configured.
\<close>

definition bearer_auth :: "config \<Rightarrow> headers \<Rightarrow> (thrown + headers) \<times> event list" where
  "bearer_auth cfg h =
     (case authToken cfg of
        None \<Rightarrow> (Inr h, [])
      | Some tok \<Rightarrow>
          if tok = [] then (Inr h, [])
          else (case headers_set h ''Authorization'' (''Bearer '' @ tok) of
                  None \<Rightarrow> (Inl (HostError (TypeError ''Invalid header value'')), [])
                | Some h1 \<Rightarrow>
                    (case organizationId cfg of
                       None \<Rightarrow> (Inr h1, [])
                     | Some org \<Rightarrow>
                         if org \<noteq> [] \<and> \<not> headers_has h1 ''X-Organization-ID''
                         then (case headers_set h1 ''X-Organization-ID'' org of
                                 None \<Rightarrow> (Inl (HostError (TypeError ''Invalid header value'')), [])
                               | Some h2 \<Rightarrow> (Inr h2, []))
                         else (Inr h1, []))))"

definition api_key_auth :: "config \<Rightarrow> string \<Rightarrow> string \<Rightarrow> headers \<Rightarrow> (thrown + headers) \<times> event list" where
  "api_key_auth cfg key path' h =
     (case headers_set h ''X-API-Key'' key of
        None \<Rightarrow> (Inl (HostError (TypeError ''Invalid header value'')), [])
      | Some h1 \<Rightarrow>
          (case organizationId cfg of
             None \<Rightarrow>
               (Inr (headers_delete h1 ''Authorization''),
                [Warn (''Making API Key request without X-Organization-ID header for path: '' @ path'
                       @ ''. This may be required.'')])
           | Some org \<Rightarrow>
               if org \<noteq> []
               then (case headers_set h1 ''X-Organization-ID'' org of
                       None \<Rightarrow> (Inl (HostError (TypeError ''Invalid header value'')), [])
                     | Some h2 \<Rightarrow> (Inr (headers_delete h2 ''Authorization''), []))
               else
                 (Inr (headers_delete h1 ''Authorization''),
                  [Warn (''Making API Key request without X-Organization-ID header for path: '' @ path'
                         @ ''. This may be required.'')])))"

definition apply_auth :: "config \<Rightarrow> string \<Rightarrow> headers \<Rightarrow> (thrown + headers) \<times> event list" where
  "apply_auth cfg path' h =
     (case apiKey cfg of
        None \<Rightarrow> bearer_auth cfg h
      | Some key \<Rightarrow> if key \<noteq> [] then api_key_auth cfg key path' h else bearer_auth cfg h)"

text \<open>
  The body. A falsy body sends nothing and leaves the headers alone. A string or a payload
  object of the host goes out as it is, without a content type. Anything else is
  serialized to JSON, with the JSON content type unless one is set; a failure in that
  block is an \<open>SDKError\<close>.
\<close>

definition stringify_body :: "host \<Rightarrow> jsval \<Rightarrow> headers \<Rightarrow> thrown + fetch_body option \<times> headers" where
  "stringify_body hst v h =
     (case json_stringify hst v of
        None \<Rightarrow> Inl (SDKError ''Failed to stringify request body as JSON'')
      | Some txt \<Rightarrow>
          if \<not> headers_has h ''Content-Type''
          then (case headers_set h ''Content-Type'' ''application/json'' of
                  None \<Rightarrow> Inl (SDKError ''Failed to stringify request body as JSON'')
                | Some h' \<Rightarrow> Inr (Some (JsonText txt), h'))
          else Inr (Some (JsonText txt), h))"

definition prepare_body :: "host \<Rightarrow> req_body \<Rightarrow> headers \<Rightarrow> thrown + fetch_body option \<times> headers" where
  "prepare_body hst b h =
     (case b of
        JsBody v \<Rightarrow>
          if truthy v
          then (case v of
                  Str s \<Rightarrow> Inr (Some (Passed b), headers_delete h ''Content-Type'')
                | _ \<Rightarrow> stringify_body hst v h)
          else Inr (None, h)
      | _ \<Rightarrow> Inr (Some (Passed b), headers_delete h ''Content-Type''))"

text \<open>
  \<open>getCombinedSignal\<close>: no signal gives none, one signal is returned as it is, and
  several are merged into the signal of a fresh controller, which is aborted (without a
  reason of its own, hence with the default \<open>AbortError\<close>) as soon as one of them is:
  at once for a signal that is already aborted, by the listener for one that fires
  later. The listeners stay on the signals after \<open>fetch\<close> has resolved.
\<close>

definition default_abort_reason :: "host \<Rightarrow> js_exn" where
  "default_abort_reason hst = JsExn True ''AbortError'' (abort_message hst)"

definition getCombinedSignal :: "host \<Rightarrow> abort_signal option list \<Rightarrow> abort_signal option" where
  "getCombinedSignal hst signals =
     (let validSignals = List.map_filter id signals
      in case validSignals of
           [] \<Rightarrow> None
         | [s] \<Rightarrow> Some s
         | _ \<Rightarrow> Some (AbortSignal (if list_ex aborted validSignals
                                     then Some (InFlight, default_abort_reason hst)
                                     else if list_ex aborted_late validSignals
                                     then Some (ReadingBody, default_abort_reason hst)
                                     else None)))"

text \<open>
  \<open>AbortSignal.timeout(n)\<close>: aborted with a \<open>TimeoutError\<close> once the timer expires. The
  timer keeps running after \<open>fetch\<close> has resolved.
\<close>

definition AbortSignal_timeout :: "host \<Rightarrow> int \<Rightarrow> thrown + abort_signal" where
  "AbortSignal_timeout hst n =
     (if timer_accepts hst n
      then Inr (AbortSignal (case timer_fires hst of
                               None \<Rightarrow> None
                             | Some ph \<Rightarrow>
                                 Some (ph, JsExn True ''TimeoutError'' ''The operation timed out.'')))
      else Inl (HostError (JsExn False ''RangeError'' ''The timeout is out of range'')))"

text \<open>\<open>this.config.timeout ? AbortSignal.timeout(this.config.timeout) : null\<close>\<close>

definition new_timeoutSignal :: "host \<Rightarrow> config \<Rightarrow> thrown + abort_signal option" where
  "new_timeoutSignal hst cfg =
     (case timeout cfg of
        None \<Rightarrow> Inr None
      | Some n \<Rightarrow>
          if n \<noteq> 0
          then (case AbortSignal_timeout hst n of Inl e \<Rightarrow> Inl e | Inr ts \<Rightarrow> Inr (Some ts))
          else Inr None)"

text \<open>
  Everything up to the call of \<open>fetch\<close>: the request to send and the timeout signal, or
  what was thrown.
\<close>

definition build_request :: "host \<Rightarrow> config \<Rightarrow> string \<Rightarrow> options \<Rightarrow> (thrown + fetch_init \<times> abort_signal option) \<times> event list" where
  "build_request hst cfg path' opts =
     (case build_url hst cfg path' (queryParams opts) of
        Inl e \<Rightarrow> (Inl e, [])
      | Inr u \<Rightarrow>
          (case new_Headers (obj_spread (case defaultHeaders cfg of None \<Rightarrow> [] | Some d \<Rightarrow> d)
                                        (case headers opts of None \<Rightarrow> [] | Some rh \<Rightarrow> rh)) of
             None \<Rightarrow> (Inl (HostError (TypeError ''Invalid header'')), [])
           | Some h0 \<Rightarrow>
               (case apply_auth cfg path' h0 of
                  (Inl e, evs) \<Rightarrow> (Inl e, evs)
                | (Inr h1, evs) \<Rightarrow>
                    (case prepare_body hst (body opts) h1 of
                       Inl e \<Rightarrow> (Inl e, evs)
                     | Inr (requestBody, h2) \<Rightarrow>
                         (case new_timeoutSignal hst cfg of
                            Inl e \<Rightarrow> (Inl e, evs)
                          | Inr timeoutSignal \<Rightarrow>
                              (Inr (\<lparr>fetch_url = u,
                                     fetch_method = (case http_method opts of None \<Rightarrow> GET | Some m \<Rightarrow> m),
                                     fetch_headers = h2,
                                     fetch_body = requestBody,
                                     fetch_signal = getCombinedSignal hst
                                       [signal opts, Some (AbortSignal None), timeoutSignal]\<rparr>,
                                    timeoutSignal),
                               evs))))))"

section \<open>HttpClient.request: transport and response\<close>

text \<open>
  \<open>fetch\<close>: a request whose signal is aborted before \<open>fetch\<close> settles is rejected with
  the reason of that signal; otherwise the exchange with the server decides. The signal
  stays attached to the response that \<open>fetch\<close> resolves with: if it fires while the body
  is being read, \<open>response.json()\<close> and \<open>response.text()\<close> reject with its reason.
\<close>

definition abort_body :: "js_exn \<Rightarrow> response \<Rightarrow> response" where
  "abort_body e r = r\<lparr>json_result := Inl e, text_result := Inl e\<rparr>"

definition do_fetch :: "host \<Rightarrow> fetch_init \<Rightarrow> fetch_outcome" where
  "do_fetch hst init =
     (case fetch_signal init of
        None \<Rightarrow> network hst init
      | Some s \<Rightarrow>
          (case fires s of
             None \<Rightarrow> network hst init
           | Some (InFlight, e) \<Rightarrow> Rejected e
           | Some (ReadingBody, e) \<Rightarrow>
               (case network hst init of
                  Rejected error \<Rightarrow> Rejected error
                | Resolved r \<Rightarrow> Resolved (abort_body e r))))"

text \<open>The \<open>catch\<close> around \<open>fetch\<close>.\<close>

definition timeout_text :: "int option \<Rightarrow> string" where
  "timeout_text t = (case t of None \<Rightarrow> ''undefined'' | Some n \<Rightarrow> show_int n)"

definition classify_fetch_error :: "config \<Rightarrow> abort_signal option \<Rightarrow> js_exn \<Rightarrow> thrown" where
  "classify_fetch_error cfg timeoutSignal error =
     (if ename error = ''TimeoutError''
         \<or> (is_dom error \<and> ename error = ''AbortError''
             \<and> (case timeoutSignal of None \<Rightarrow> False | Some ts \<Rightarrow> aborted ts))
      then NetworkError (''Request timed out after '' @ timeout_text (timeout cfg) @ ''ms'') error
      else if is_dom error \<and> ename error = ''AbortError''
      then SDKError (''Request aborted: '' @ emsg error)
      else NetworkError (''Network request failed: '' @ emsg error) error)"

text \<open>
  A response that is not ok and not the expected status. The body is read as JSON when
  the content type says so and as text otherwise; a failure to read it is ignored. The
  message is the first truthy one of \<open>errorBody.message\<close>, \<open>errorBody.error\<close>, and the
  body itself if it is a string or else the status text. It is spliced into the message
  of the error by a template literal, outside any \<open>try\<close>.
\<close>

definition read_text :: "response \<Rightarrow> jsval \<times> event list" where
  "read_text r = ((case text_result r of Inl _ \<Rightarrow> Null | Inr t \<Rightarrow> Str t), [ReadText])"

definition read_error_body :: "response \<Rightarrow> jsval \<times> event list" where
  "read_error_body r =
     (case headers_get (resp_headers r) ''content-type'' of
        None \<Rightarrow> read_text r
      | Some contentType \<Rightarrow>
          if contentType \<noteq> [] \<and> str_includes contentType ''application/json''
          then ((case json_result r of Inl _ \<Rightarrow> Null | Inr v \<Rightarrow> v), [ReadJson])
          else read_text r)"

definition error_message :: "jsval \<Rightarrow> string \<Rightarrow> jsval" where
  "error_message errorBody stext =
     (if truthy (get_prop errorBody ''message'') then get_prop errorBody ''message''
      else if truthy (get_prop errorBody ''error'') then get_prop errorBody ''error''
      else (case errorBody of Str s \<Rightarrow> Str s | _ \<Rightarrow> Str stext))"

definition cannot_convert :: js_exn where
  "cannot_convert = TypeError ''Cannot convert object to primitive value''"

definition error_response :: "response \<Rightarrow> thrown \<times> event list" where
  "error_response r =
     (case read_error_body r of
        (errorBody, evs) \<Rightarrow>
          (case to_string (error_message errorBody (statusText r)) of
             None \<Rightarrow> (HostError cannot_convert, evs)
           | Some errorMessage \<Rightarrow>
               if status r = 401 \<or> status r = 403
               then (AuthenticationError (''Authentication failed: '' @ errorMessage), evs)
               else (APIError (''API request failed with status '' @ show_int (status r) @ '': ''
                               @ errorMessage)
                       (status r) errorBody (resp_headers r), evs)))"

text \<open>
  The type guard \<open>isSuccessWrapper\<close>: an object whose \<open>success\<close> is the boolean
  \<open>true\<close> and that has an own property \<open>data\<close>. The last test calls
  \<open>res.hasOwnProperty\<close>; an own property of that name is a JSON value, and calling it
  throws a TypeError.
\<close>

definition isSuccessWrapper :: "jsval \<Rightarrow> js_exn + bool" where
  "isSuccessWrapper res =
     (case res of
        Obj kvs \<Rightarrow>
          if get_prop res ''success'' = Bool True
          then (case map_of kvs ''hasOwnProperty'' of
                  Some _ \<Rightarrow> Inl (TypeError ''res.hasOwnProperty is not a function'')
                | None \<Rightarrow> Inr (has_own res ''data''))
          else Inr False
      | _ \<Rightarrow> Inr False)"

definition parse_failed :: "string \<Rightarrow> thrown" where
  "parse_failed m =
     SDKError (''Failed to parse response body as JSON or unexpected structure: '' @ m)"

definition status_mismatch :: "int \<Rightarrow> int option \<Rightarrow> thrown" where
  "status_mismatch st expected =
     SDKError (''Unexpected successful response structure or status mismatch. Status: ''
               @ show_int st @ '', Expected: ''
               @ (case expected of None \<Rightarrow> ''2xx'' | Some e \<Rightarrow> show_int e))"

definition is_expected :: "int option \<Rightarrow> response \<Rightarrow> bool" where
  "is_expected expected r = (num_truthy expected \<and> Some (status r) = expected)"

text \<open>
  A response taken as successful: no content for status 204 or a \<open>Content-Length\<close> of
  \<open>0\<close>; otherwise the body is parsed, unwrapped if it is a success wrapper, returned as it
  is if the status is the expected one or if it is ok and no other status is expected,
  and an \<open>SDKError\<close> in every other case.
\<close>

definition success_response :: "int option \<Rightarrow> response \<Rightarrow> (thrown + jsval) \<times> event list" where
  "success_response expected r =
     (if status r = 204 \<or> headers_get (resp_headers r) ''Content-Length'' = Some ''0''
      then (Inr Undefined, [])
      else
        (case json_result r of
           Inl e \<Rightarrow> (Inl (parse_failed (emsg e)), [ReadJson])
         | Inr responseBody \<Rightarrow>
             (case isSuccessWrapper responseBody of
                Inl e \<Rightarrow> (Inl (parse_failed (emsg e)), [ReadJson])
              | Inr True \<Rightarrow> (Inr (get_prop responseBody ''data''), [ReadJson])
              | Inr False \<Rightarrow>
                  if is_expected expected r then (Inr responseBody, [ReadJson])
                  else if ok r \<and> (\<not> num_truthy expected \<or> Some (status r) = expected)
                  then (Inr responseBody, [ReadJson])
                  else (Inl (status_mismatch (status r) expected), [ReadJson]))))"

definition interpret_response :: "int option \<Rightarrow> response \<Rightarrow> (thrown + jsval) \<times> event list" where
  "interpret_response expected r =
     (if \<not> ok r \<and> \<not> is_expected expected r
      then (case error_response r of (e, evs) \<Rightarrow> (Inl e, evs))
      else success_response expected r)"

text \<open>\<open>HttpClient.request\<close>: the result of the call and the log of its effects.\<close>

definition request :: "host \<Rightarrow> config \<Rightarrow> string \<Rightarrow> options \<Rightarrow> (thrown + jsval) \<times> event list" where
  "request hst cfg path' opts =
     (case build_request hst cfg path' opts of
        (Inl e, evs) \<Rightarrow> (Inl e, evs)
      | (Inr (init, timeoutSignal), evs) \<Rightarrow>
          (case do_fetch hst init of
             Rejected error \<Rightarrow>
               (Inl (classify_fetch_error cfg timeoutSignal error), evs @ [Fetch init])
           | Resolved r \<Rightarrow>
               (case interpret_response (expectedStatus opts) r of
                  (res, evs') \<Rightarrow> (res, evs @ Fetch init # evs'))))"

section \<open>WalletsAPI.create\<close>

text \<open>
  The zod schemas of the wallet types, as functions from the path of a field and its
  value to the list of issues (empty: the value is valid). An object schema checks every
  declared field even after one has failed, and ignores undeclared fields.
\<close>

fun parsed_type :: "jsval \<Rightarrow> string" where
  "parsed_type Undefined = ''undefined''"
| "parsed_type Null = ''null''"
| "parsed_type (Bool _) = ''boolean''"
| "parsed_type (Num _) = ''number''"
| "parsed_type (Str _) = ''string''"
| "parsed_type (Arr _) = ''array''"
| "parsed_type (Obj _) = ''object''"

definition invalid_type :: "string \<Rightarrow> string list \<Rightarrow> jsval \<Rightarrow> zod_issue" where
  "invalid_type expected p v =
     ZodIssue ''invalid_type'' p
       (if v = Undefined then ''Required''
        else ''Expected '' @ expected @ '', received '' @ parsed_type v)"

definition z_string :: "string list \<Rightarrow> jsval \<Rightarrow> zod_issue list" where
  "z_string p v = (case v of Str _ \<Rightarrow> [] | _ \<Rightarrow> [invalid_type ''string'' p v])"

definition z_string_uuid :: "host \<Rightarrow> string list \<Rightarrow> jsval \<Rightarrow> zod_issue list" where
  "z_string_uuid hst p v =
     (case v of
        Str s \<Rightarrow> if is_uuid hst s then [] else [ZodIssue ''invalid_string'' p ''Invalid uuid'']
      | _ \<Rightarrow> [invalid_type ''string'' p v])"

definition z_optional :: "(string list \<Rightarrow> jsval \<Rightarrow> zod_issue list) \<Rightarrow> string list \<Rightarrow> jsval \<Rightarrow> zod_issue list" where
  "z_optional schema p v = (if v = Undefined then [] else schema p v)"

definition z_nullable :: "(string list \<Rightarrow> jsval \<Rightarrow> zod_issue list) \<Rightarrow> string list \<Rightarrow> jsval \<Rightarrow> zod_issue list" where
  "z_nullable schema p v = (if v = Null then [] else schema p v)"

definition z_record_string :: "string list \<Rightarrow> jsval \<Rightarrow> zod_issue list" where
  "z_record_string p v =
     (case v of
        Obj kvs \<Rightarrow> concat (map (\<lambda>kv. z_string (p @ [fst kv]) (snd kv)) kvs)
      | _ \<Rightarrow> [invalid_type ''object'' p v])"

definition quoted :: "string \<Rightarrow> string" where
  "quoted s = CHR 0x27 # s @ [CHR 0x27]"

definition WalletStatus_values :: "string list" where
  "WalletStatus_values = [''active'', ''inactive'', ''frozen'']"

definition WalletStatusSchema :: "string list \<Rightarrow> jsval \<Rightarrow> zod_issue list" where
  "WalletStatusSchema p v =
     (case v of
        Str s \<Rightarrow>
          if List.member WalletStatus_values s then []
          else [ZodIssue ''invalid_enum_value'' p
                  (''Invalid enum value. Expected ''
                   @ join_with '' | '' (map quoted WalletStatus_values)
                   @ '', received '' @ quoted s)]
      | _ \<Rightarrow> [invalid_type (join_with '' | '' (map quoted WalletStatus_values)) p v])"

text \<open>\<open>WalletCreateRequestInputSchema\<close> and its transform to the wire names.\<close>

definition WalletCreateRequestInputSchema :: "host \<Rightarrow> jsval \<Rightarrow> zod_issue list" where
  "WalletCreateRequestInputSchema hst v =
     (case v of
        Obj kvs \<Rightarrow>
          z_string [''blockchain''] (get_prop v ''blockchain'')
          @ z_string [''name''] (get_prop v ''name'')
          @ z_optional (z_string_uuid hst) [''userId''] (get_prop v ''userId'')
          @ z_string_uuid hst [''organizationId''] (get_prop v ''organizationId'')
          @ z_optional z_record_string [''metadata''] (get_prop v ''metadata'')
      | _ \<Rightarrow> [invalid_type ''object'' [] v])"

definition WalletCreateRequestSchema_safeParse :: "host \<Rightarrow> jsval \<Rightarrow> zod_issue list + jsval" where
  "WalletCreateRequestSchema_safeParse hst v =
     (case WalletCreateRequestInputSchema hst v of
        [] \<Rightarrow>
          Inr (Obj [(''blockchain'', get_prop v ''blockchain''),
                    (''name'', get_prop v ''name''),
                    (''user_id'', get_prop v ''userId''),
                    (''organization_id'', get_prop v ''organizationId''),
                    (''metadata'', get_prop v ''metadata'')])
      | i # is \<Rightarrow> Inl (i # is))"

text \<open>\<open>ApiWalletResponseSchema\<close>, and \<open>WalletSchema\<close>, its transform to the SDK type.\<close>

definition ApiWalletResponseSchema :: "host \<Rightarrow> jsval \<Rightarrow> zod_issue list" where
  "ApiWalletResponseSchema hst v =
     (case v of
        Obj kvs \<Rightarrow>
          z_string_uuid hst [''id''] (get_prop v ''id'')
          @ z_string_uuid hst [''user_id''] (get_prop v ''user_id'')
          @ z_string [''address''] (get_prop v ''address'')
          @ z_string [''blockchain''] (get_prop v ''blockchain'')
          @ z_string [''name''] (get_prop v ''name'')
          @ WalletStatusSchema [''status''] (get_prop v ''status'')
          @ z_nullable (z_optional z_record_string) [''metadata''] (get_prop v ''metadata'')
          @ z_string [''created_at''] (get_prop v ''created_at'')
          @ z_string [''updated_at''] (get_prop v ''updated_at'')
          @ z_nullable (z_optional (z_string_uuid hst)) [''organization_id'']
              (get_prop v ''organization_id'')
      | _ \<Rightarrow> [invalid_type ''object'' [] v])"

record wallet =
  w_id :: jsval
  w_userId :: jsval
  w_address :: jsval
  w_blockchain :: jsval
  w_name :: jsval
  w_status :: jsval
  w_metadata :: jsval
  w_createdAt :: "int option"
  w_updatedAt :: "int option"
  w_organizationId :: jsval

definition new_Date :: "host \<Rightarrow> jsval \<Rightarrow> int option" where
  "new_Date hst v = (case v of Str s \<Rightarrow> date_parse hst s | _ \<Rightarrow> None)"

definition WalletSchema_parse :: "host \<Rightarrow> jsval \<Rightarrow> thrown + wallet" where
  "WalletSchema_parse hst v =
     (case ApiWalletResponseSchema hst v of
        [] \<Rightarrow>
          Inr \<lparr>w_id = get_prop v ''id'', w_userId = get_prop v ''user_id'',
               w_address = get_prop v ''address'', w_blockchain = get_prop v ''blockchain'',
               w_name = get_prop v ''name'', w_status = get_prop v ''status'',
               w_metadata = get_prop v ''metadata'',
               w_createdAt = new_Date hst (get_prop v ''created_at''),
               w_updatedAt = new_Date hst (get_prop v ''updated_at''),
               w_organizationId = get_prop v ''organization_id''\<rparr>
      | i # is \<Rightarrow> Inl (ZodError (i # is)))"

text \<open>
  \<open>WalletsAPI.create\<close>: the input is validated first; only valid data is posted to
  \<open>/wallets\<close>, and the response is parsed with \<open>WalletSchema\<close>.
\<close>

definition WalletsAPI_create :: "host \<Rightarrow> config \<Rightarrow> jsval \<Rightarrow> (thrown + wallet) \<times> event list" where
  "WalletsAPI_create hst cfg walletData =
     (case WalletCreateRequestSchema_safeParse hst walletData of
        Inl issues \<Rightarrow> (Inl (ValidationError ''Invalid wallet creation data'' (Some issues)), [])
      | Inr data \<Rightarrow>
          (case request hst cfg ''/wallets''
                  \<lparr>http_method = Some POST, queryParams = None, body = JsBody data,
                   headers = None, signal = None, expectedStatus = None\<rparr> of
             (Inl e, evs) \<Rightarrow> (Inl e, evs)
           | (Inr resp, evs) \<Rightarrow> (WalletSchema_parse hst resp, evs)))"

section \<open>Example hosts, configurations and responses\<close>

text \<open>
  Concrete inputs on which the theorems below are exercised: a host whose exchange has a
  given outcome, a client configuration, the options of a plain \<open>GET\<close>, and a response
  with a JSON body.
\<close>

definition example_host :: "bool \<Rightarrow> fetch_outcome \<Rightarrow> host" where
  "example_host expired outcome =
     \<lparr>url_parse = (\<lambda>s. Some []),
      json_stringify = (\<lambda>v. Some ''{}''),
      abort_message = ''This operation was aborted'',
      is_uuid = (\<lambda>s. length s = 36),
      date_parse = (\<lambda>s. None),
      timer_accepts = (\<lambda>n. 0 \<le> n),
      timer_fires = (if expired then Some InFlight else None),
      network = (\<lambda>init. outcome)\<rparr>"

definition example_config :: config where
  "example_config =
     \<lparr>baseURL = ''https://api.example.com'', apiKey = None, authToken = None,
      organizationId = None,
      defaultHeaders = Some [(''Content-Type'', ''application/json'')], timeout = None\<rparr>"

definition example_options :: options where
  "example_options =
     \<lparr>http_method = None, queryParams = None, body = JsBody Undefined, headers = None,
      signal = None, expectedStatus = None\<rparr>"

definition json_response :: "int \<Rightarrow> (string \<times> string) list \<Rightarrow> jsval \<Rightarrow> response" where
  "json_response st hs b =
     \<lparr>status = st, statusText = '''',
      resp_headers = (''content-type'', ''application/json'') # hs,
      json_result = Inr b, text_result = Inr ''''\<rparr>"

definition example_get :: "int option \<Rightarrow> response \<Rightarrow> (thrown + jsval) \<times> event list" where
  "example_get expected r =
     request (example_host False (Resolved r)) example_config ''/wallets''
       (example_options\<lparr>expectedStatus := expected\<rparr>)"

text \<open>The request that these examples send.\<close>

definition example_init :: fetch_init where
  "example_init =
     \<lparr>fetch_url = \<lparr>href = ''https://api.example.com/wallets'', searchParams = []\<rparr>,
      fetch_method = GET, fetch_headers = [(''content-type'', ''application/json'')],
      fetch_body = None, fetch_signal = Some (AbortSignal None)\<rparr>"

section \<open>Header lists: what set, delete and has do to the entries of a name\<close>

lemma lc_names:
  "lowercase ''X-API-Key'' = ''x-api-key''"
  "lowercase ''X-Organization-ID'' = ''x-organization-id''"
  "lowercase ''Authorization'' = ''authorization''"
  "lowercase ''Content-Type'' = ''content-type''"
  by code_simp+

lemma entries_set_first_same: "filter (\<lambda>e. fst e = n) (set_first h n v) = [(n, v)]"
  by (induction h) (auto simp: filter_empty_conv)

lemma entries_set_first_other:
  "n' \<noteq> n \<Longrightarrow> filter (\<lambda>e. fst e = n') (set_first h n v) = filter (\<lambda>e. fst e = n') h"
  by (induction h) (auto intro: filter_cong)

lemma entries_delete:
  "filter (\<lambda>e. fst e = n) (headers_delete h N) =
     (if n = lowercase N then [] else filter (\<lambda>e. fst e = n) h)"
  by (induction h) (auto simp: headers_delete_def)

lemma headers_has_entries: "headers_has h N \<longleftrightarrow> filter (\<lambda>e. fst e = lowercase N) h \<noteq> []"
  by (force simp: headers_has_def filter_empty_conv)

lemma headers_set_entries:
  assumes "headers_set h N v = Some h'"
  shows "filter (\<lambda>e. fst e = n) h' =
           (if n = lowercase N then [(n, normalize_value v)] else filter (\<lambda>e. fst e = n) h)"
  using assms
  by (auto simp: headers_set_def entries_set_first_same entries_set_first_other split: if_splits)

section \<open>The effects of a request\<close>

lemma apply_auth_events: "apply_auth cfg p h = (x, evs) \<Longrightarrow> Fetch i \<notin> set evs"
  by (auto simp: apply_auth_def api_key_auth_def bearer_auth_def split: option.splits if_splits)

lemma build_request_events: "build_request hst cfg p opts = (x, evs) \<Longrightarrow> Fetch i \<notin> set evs"
  by (auto simp: build_request_def split: sum.splits option.splits prod.splits
           dest: apply_auth_events)

lemma interpret_response_events: "interpret_response e r = (x, evs) \<Longrightarrow> Fetch i \<notin> set evs"
  by (auto simp: interpret_response_def error_response_def read_error_body_def read_text_def
                 success_response_def
           split: sum.splits option.splits prod.splits if_splits bool.splits)

text \<open>The only call of \<open>fetch\<close> in a request is the one with the request that was built.\<close>

lemma request_fetch_event:
  assumes "Fetch i \<in> set (snd (request hst cfg p opts))"
  shows "\<exists>ts evs. build_request hst cfg p opts = (Inr (i, ts), evs)"
  using assms
  by (auto simp: request_def split: sum.splits prod.splits fetch_outcome.splits
           dest: build_request_events interpret_response_events)

lemma build_request_url:
  assumes "build_request hst cfg p opts = (Inr (init, ts), evs)"
  shows "build_url hst cfg p (queryParams opts) = Inr (fetch_url init)"
  using assms by (auto simp: build_request_def split: sum.splits option.splits prod.splits)

section \<open>Query parameters\<close>

lemma append_query_formatQueryParams:
  "append_query sp (formatQueryParams params) =
     sp @ map (\<lambda>kv. (fst kv, case snd kv of PDate d \<Rightarrow> toISOString d | PVal v \<Rightarrow> qvalue_String v))
            (filter (\<lambda>kv. snd kv \<noteq> PVal QUndefined \<and> snd kv \<noteq> PVal QNull) params)"
  by (induction params arbitrary: sp rule: formatQueryParams.induct) auto

lemma build_url_searchParams:
  assumes "build_url hst cfg p (Some q) = Inr u"
  shows "\<exists>sp. url_parse hst (baseURL cfg @ (if starts_with p ''/'' then p else ''/'' @ p)) = Some sp
            \<and> searchParams u = append_query sp q"
  using assms by (auto simp: build_url_def Let_def split: option.splits)

lemma append_query_filter:
  "append_query sp q =
     sp @ map (\<lambda>kv. (fst kv, qvalue_String (snd kv)))
            (filter (\<lambda>kv. snd kv \<noteq> QUndefined \<and> snd kv \<noteq> QNull) q)"
  by (induction sp q rule: append_query.induct) auto

lemma formatQueryParams_filter:
  "formatQueryParams params =
     map (\<lambda>kv. (fst kv, case snd kv of PDate d \<Rightarrow> QStr (toISOString d) | PVal v \<Rightarrow> v))
       (filter (\<lambda>kv. snd kv \<noteq> PVal QUndefined \<and> snd kv \<noteq> PVal QNull) params)"
  by (induction params rule: formatQueryParams.induct) auto

lemma sent_searchParams:
  assumes "Fetch init \<in> set (snd (request hst cfg p (opts\<lparr>queryParams := Some q\<rparr>)))"
  shows "\<exists>sp. url_parse hst (baseURL cfg @ (if starts_with p ''/'' then p else ''/'' @ p)) = Some sp
            \<and> searchParams (fetch_url init) = append_query sp q"
proof -
  from assms obtain ts evs where
    "build_request hst cfg p (opts\<lparr>queryParams := Some q\<rparr>) = (Inr (init, ts), evs)"
    using request_fetch_event by blast
  then have "build_url hst cfg p (Some q) = Inr (fetch_url init)"
    using build_request_url by fastforce
  from build_url_searchParams [OF this] show ?thesis .
qed

section \<open>Authentication headers and the body step\<close>

lemma api_key_auth_entries:
  assumes "api_key_auth cfg key p h = (Inr h', evs)"
  shows "filter (\<lambda>e. fst e = ''x-api-key'') h' = [(''x-api-key'', normalize_value key)]"
    and "organizationId cfg = Some org \<Longrightarrow> org \<noteq> [] \<Longrightarrow>
           filter (\<lambda>e. fst e = ''x-organization-id'') h'
             = [(''x-organization-id'', normalize_value org)]"
    and "filter (\<lambda>e. fst e = ''authorization'') h' = []"
  using assms
  by (auto simp: api_key_auth_def entries_delete lc_names headers_set_entries
           split: option.splits if_splits)

lemma prepare_body_entries:
  assumes "prepare_body hst b h = Inr (rb, h')" "n \<noteq> ''content-type''"
  shows "filter (\<lambda>e. fst e = n) h' = filter (\<lambda>e. fst e = n) h"
  using assms
  by (auto simp: prepare_body_def stringify_body_def entries_delete lc_names headers_set_entries
           split: req_body.splits jsval.splits option.splits if_splits)

section \<open>From the request that was built to the result\<close>

lemma build_request_parts:
  assumes "build_request hst cfg p opts = (Inr (init, ts), evs)"
  shows "\<exists>h0 h1. new_Headers (obj_spread (case defaultHeaders cfg of None \<Rightarrow> [] | Some d \<Rightarrow> d)
                                         (case headers opts of None \<Rightarrow> [] | Some rh \<Rightarrow> rh)) = Some h0
           \<and> apply_auth cfg p h0 = (Inr h1, evs)
           \<and> prepare_body hst (body opts) h1 = Inr (fetch_body init, fetch_headers init)
           \<and> new_timeoutSignal hst cfg = Inr ts
           \<and> fetch_signal init = getCombinedSignal hst [signal opts, Some (AbortSignal None), ts]"
  using assms
  by (auto simp: build_request_def split: sum.splits option.splits prod.splits)

lemma apply_auth_warns: "apply_auth cfg p h = (x, evs) \<Longrightarrow> e \<in> set evs \<Longrightarrow> \<exists>m. e = Warn m"
  by (auto simp: apply_auth_def api_key_auth_def bearer_auth_def split: option.splits if_splits)

lemma build_request_warns:
  "build_request hst cfg p opts = (x, evs) \<Longrightarrow> e \<in> set evs \<Longrightarrow> \<exists>m. e = Warn m"
  by (auto simp: build_request_def split: sum.splits option.splits prod.splits
           dest: apply_auth_warns)

lemma request_responded:
  assumes sent: "Fetch init \<in> set (snd (request hst cfg p opts))"
    and resp: "do_fetch hst init = Resolved r"
  shows "\<exists>evs. request hst cfg p opts =
            (fst (interpret_response (expectedStatus opts) r),
             evs @ Fetch init # snd (interpret_response (expectedStatus opts) r))
          \<and> ReadJson \<notin> set evs \<and> ReadText \<notin> set evs"
proof -
  from sent obtain ts evs where b: "build_request hst cfg p opts = (Inr (init, ts), evs)"
    using request_fetch_event by blast
  have "ReadJson \<notin> set evs" "ReadText \<notin> set evs"
    using build_request_warns [OF b] by auto
  moreover have "request hst cfg p opts =
            (fst (interpret_response (expectedStatus opts) r),
             evs @ Fetch init # snd (interpret_response (expectedStatus opts) r))"
    using b resp by (simp add: request_def split: prod.splits)
  ultimately show ?thesis by blast
qed

lemma request_rejected:
  assumes sent: "Fetch init \<in> set (snd (request hst cfg p opts))"
    and rej: "do_fetch hst init = Rejected err"
  shows "\<exists>ts. new_timeoutSignal hst cfg = Inr ts
           \<and> fetch_signal init = getCombinedSignal hst [signal opts, Some (AbortSignal None), ts]
           \<and> fst (request hst cfg p opts) = Inl (classify_fetch_error cfg ts err)"
proof -
  from sent obtain ts evs where b: "build_request hst cfg p opts = (Inr (init, ts), evs)"
    using request_fetch_event by blast
  from build_request_parts [OF b] have
    "new_timeoutSignal hst cfg = Inr ts"
    "fetch_signal init = getCombinedSignal hst [signal opts, Some (AbortSignal None), ts]"
    by blast+
  moreover have "fst (request hst cfg p opts) = Inl (classify_fetch_error cfg ts err)"
    using b rej by (simp add: request_def)
  ultimately show ?thesis by blast
qed

section \<open>Responses taken as successful\<close>

lemma success_no_content:
  "status r = 204 \<or> headers_get (resp_headers r) ''Content-Length'' = Some ''0''
     \<Longrightarrow> success_response e r = (Inr Undefined, [])"
  by (simp add: success_response_def)

lemma ok_204: "status r = 204 \<Longrightarrow> ok r"
  by (simp add: ok_def)

lemma success_parsed:
  assumes "status r \<noteq> 204" "headers_get (resp_headers r) ''Content-Length'' \<noteq> Some ''0''"
    and "json_result r = Inr b"
  shows "success_response e r =
           (case isSuccessWrapper b of
              Inl err \<Rightarrow> (Inl (parse_failed (emsg err)), [ReadJson])
            | Inr True \<Rightarrow> (Inr (get_prop b ''data''), [ReadJson])
            | Inr False \<Rightarrow>
                if is_expected e r \<or> (ok r \<and> \<not> num_truthy e) then (Inr b, [ReadJson])
                else (Inl (status_mismatch (status r) e), [ReadJson]))"
  using assms
  by (auto simp: success_response_def is_expected_def split: sum.splits bool.splits)

lemma interpret_success:
  "ok r \<or> is_expected e r \<Longrightarrow> interpret_response e r = success_response e r"
  by (auto simp: interpret_response_def)

lemma isSuccessWrapper_True:
  "get_prop b ''success'' = Bool True \<Longrightarrow> has_own b ''data'' \<Longrightarrow> \<not> has_own b ''hasOwnProperty''
     \<Longrightarrow> isSuccessWrapper b = Inr True"
  by (cases b) (auto simp: isSuccessWrapper_def split: option.splits)

lemma isSuccessWrapper_False:
  "get_prop b ''success'' \<noteq> Bool True \<or> (\<not> has_own b ''data'' \<and> \<not> has_own b ''hasOwnProperty'')
     \<Longrightarrow> isSuccessWrapper b = Inr False"
  by (cases b) (auto simp: isSuccessWrapper_def split: option.splits)

lemma isSuccessWrapper_throws:
  "get_prop b ''success'' = Bool True \<Longrightarrow> has_own b ''hasOwnProperty''
     \<Longrightarrow> isSuccessWrapper b = Inl (TypeError ''res.hasOwnProperty is not a function'')"
  by (cases b) (auto simp: isSuccessWrapper_def split: option.splits)

lemma request_success_parsed:
  assumes sent: "Fetch init \<in> set (snd (request hst cfg p opts))"
    and resp: "do_fetch hst init = Resolved r"
    and succ: "ok r \<or> is_expected (expectedStatus opts) r"
    and parsed: "status r \<noteq> 204" "headers_get (resp_headers r) ''Content-Length'' \<noteq> Some ''0''"
      "json_result r = Inr b"
  shows "fst (request hst cfg p opts) =
           (case isSuccessWrapper b of
              Inl err \<Rightarrow> Inl (parse_failed (emsg err))
            | Inr True \<Rightarrow> Inr (get_prop b ''data'')
            | Inr False \<Rightarrow>
                if is_expected (expectedStatus opts) r \<or> (ok r \<and> \<not> num_truthy (expectedStatus opts))
                then Inr b
                else Inl (status_mismatch (status r) (expectedStatus opts)))"
proof -
  from request_responded [OF sent resp]
  have "fst (request hst cfg p opts) = fst (interpret_response (expectedStatus opts) r)"
    by auto
  also have "\<dots> = fst (success_response (expectedStatus opts) r)"
    using interpret_success [OF succ] by simp
  finally show ?thesis
    by (simp add: success_parsed [OF parsed] split: sum.splits bool.splits)
qed

section \<open>Validation of the wallet input\<close>

lemma safeParse_issues_nonempty:
  "WalletCreateRequestSchema_safeParse hst v = Inl issues \<Longrightarrow> issues \<noteq> []"
  by (auto simp: WalletCreateRequestSchema_safeParse_def split: list.splits)

lemma missing_name_is_an_issue:
  assumes "map_of kvs ''name'' = None"
  shows "\<exists>issues. WalletCreateRequestSchema_safeParse hst (Obj kvs) = Inl issues
           \<and> ZodIssue ''invalid_type'' [''name''] ''Required'' \<in> set issues"
proof -
  have "ZodIssue ''invalid_type'' [''name''] ''Required''
          \<in> set (WalletCreateRequestInputSchema hst (Obj kvs))"
    using assms by (simp add: WalletCreateRequestInputSchema_def z_string_def invalid_type_def)
  then show ?thesis
    by (cases "WalletCreateRequestInputSchema hst (Obj kvs)")
       (auto simp: WalletCreateRequestSchema_safeParse_def)
qed

section \<open>Falsy bodies\<close>

lemma falsy_values: "\<not> truthy b \<longleftrightarrow> b \<in> {Str [], Num 0, Bool False, Null, Undefined}"
  by (cases b) auto

lemma prepare_body_falsy: "\<not> truthy b \<Longrightarrow> prepare_body hst (JsBody b) h = Inr (None, h)"
  by (simp add: prepare_body_def)

lemma build_request_falsy:
  "\<not> truthy b \<Longrightarrow> build_request hst cfg p (opts\<lparr>body := JsBody b\<rparr>)
     = build_request hst cfg p (opts\<lparr>body := JsBody Undefined\<rparr>)"
  by (simp add: build_request_def prepare_body_falsy
           cong: sum.case_cong option.case_cong prod.case_cong)

section \<open>Aborted requests\<close>

lemma combined_aborted:
  assumes "aborted s"
  shows "getCombinedSignal hst [Some s, Some (AbortSignal None), ts]
           = Some (AbortSignal (Some (InFlight, default_abort_reason hst)))"
  using assms by (cases ts) (auto simp: getCombinedSignal_def)

lemma combined_timeout:
  assumes "aborted t"
  shows "getCombinedSignal hst [s, Some (AbortSignal None), Some t]
           = Some (AbortSignal (Some (InFlight, default_abort_reason hst)))"
  using assms by (cases s) (auto simp: getCombinedSignal_def)

lemma do_fetch_aborted:
  "fetch_signal init = Some (AbortSignal (Some (InFlight, e))) \<Longrightarrow> do_fetch hst init = Rejected e"
  by (simp add: do_fetch_def)

section \<open>The claims\<close>

text \<open>
  Claim C1, as amended. A request was sent and answered; the response reached the parsing
  step (its status is not 204, its \<open>Content-Length\<close> is not \<open>0\<close>) and its body parsed
  to a value that is not a success wrapper: \<open>success\<close> is not \<open>true\<close>, or there is no own
  \<open>data\<close> (and no own property \<open>hasOwnProperty\<close> shadows the method that the guard
  calls). If the status is the expected status of the call, or the status is 2xx and the
  call expects no status, \<open>request\<close> returns the parsed body itself. If the status is 2xx
  and the call expects another status, \<open>request\<close> throws the status-mismatch \<open>SDKError\<close>.
\<close>

theorem bare_body_is_payload:
  assumes sent: "Fetch init \<in> set (snd (request hst cfg path' opts))"
    and resp: "do_fetch hst init = Resolved r"
    and parsed: "status r \<noteq> 204" "headers_get (resp_headers r) ''Content-Length'' \<noteq> Some ''0''"
      "json_result r = Inr b"
    and bare: "get_prop b ''success'' \<noteq> Bool True
               \<or> (\<not> has_own b ''data'' \<and> \<not> has_own b ''hasOwnProperty'')"
  shows "(is_expected (expectedStatus opts) r \<or> (ok r \<and> \<not> num_truthy (expectedStatus opts))
            \<longrightarrow> fst (request hst cfg path' opts) = Inr b)
       \<and> (ok r \<and> num_truthy (expectedStatus opts) \<and> \<not> is_expected (expectedStatus opts) r
            \<longrightarrow> fst (request hst cfg path' opts)
                  = Inl (status_mismatch (status r) (expectedStatus opts)))"
  using request_success_parsed [OF sent resp _ parsed] isSuccessWrapper_False [OF bare]
  by auto

text \<open>
  The claim as stated fails: a 200 response with the bare body \<open>{id: "1"}\<close>, to a call
  that expects 201, is a status mismatch and not the body.
\<close>

theorem bare_body_counterexample:
  "ok (json_response 200 [] (Obj [(''id'', Str ''1'')]))
   \<and> json_result (json_response 200 [] (Obj [(''id'', Str ''1'')])) = Inr (Obj [(''id'', Str ''1'')])
   \<and> isSuccessWrapper (Obj [(''id'', Str ''1'')]) = Inr False
   \<and> fst (example_get (Some 201) (json_response 200 [] (Obj [(''id'', Str ''1'')])))
       = Inl (SDKError ''Unexpected successful response structure or status mismatch. Status: 200, Expected: 201'')"
  by code_simp

text \<open>
  A 202 response to a call that expects 202 yields its body; a 200 response to a call
  that expects 201 is the mismatch.
\<close>

theorem bare_body_is_payload_witness:
  "Fetch example_init \<in> set (snd (example_get (Some 202) (json_response 202 [] (Obj [(''id'', Str ''1'')]))))
   \<and> is_expected (Some 202) (json_response 202 [] (Obj [(''id'', Str ''1'')]))
   \<and> fst (example_get (Some 202) (json_response 202 [] (Obj [(''id'', Str ''1'')])))
       = Inr (Obj [(''id'', Str ''1'')])
   \<and> Fetch example_init \<in> set (snd (example_get (Some 201) (json_response 200 [] (Obj [(''id'', Str ''1'')]))))
   \<and> ok (json_response 200 [] (Obj [(''id'', Str ''1'')]))
   \<and> fst (example_get (Some 201) (json_response 200 [] (Obj [(''id'', Str ''1'')])))
       = Inl (status_mismatch 200 (Some 201))"
proof -
  let ?b = "Obj [(''id'', Str ''1'')]"
  let ?r = "json_response 202 [] ?b" and ?r' = "json_response 200 [] ?b"
  have sent: "Fetch example_init \<in> set (snd (example_get (Some 202) ?r))" by code_simp
  have sent': "Fetch example_init \<in> set (snd (example_get (Some 201) ?r'))" by code_simp
  have resp: "do_fetch (example_host False (Resolved ?r)) example_init = Resolved ?r" by code_simp
  have resp': "do_fetch (example_host False (Resolved ?r')) example_init = Resolved ?r'" by code_simp
  have parsed: "status ?r \<noteq> 204" "headers_get (resp_headers ?r) ''Content-Length'' \<noteq> Some ''0''"
    "json_result ?r = Inr ?b" by code_simp+
  have parsed': "status ?r' \<noteq> 204" "headers_get (resp_headers ?r') ''Content-Length'' \<noteq> Some ''0''"
    "json_result ?r' = Inr ?b" by code_simp+
  have bare: "get_prop ?b ''success'' \<noteq> Bool True
               \<or> (\<not> has_own ?b ''data'' \<and> \<not> has_own ?b ''hasOwnProperty'')" by code_simp
  have e: "is_expected (Some 202) ?r" by code_simp
  have e': "ok ?r'" "num_truthy (Some 201)" "\<not> is_expected (Some 201) ?r'" by code_simp+
  note t = bare_body_is_payload [OF sent [unfolded example_get_def] resp parsed bare]
  note t' = bare_body_is_payload [OF sent' [unfolded example_get_def] resp' parsed' bare]
  from t e have 1: "fst (example_get (Some 202) ?r) = Inr ?b"
    by (simp add: example_get_def example_options_def)
  from t' e' have 2: "fst (example_get (Some 201) ?r') = Inl (status_mismatch 200 (Some 201))"
    by (simp add: example_get_def example_options_def json_response_def)
  from sent sent' e e'(1) 1 2 show ?thesis by blast
qed

text \<open>
  Claim C2. The client has an API key (a non-empty string: the test is
  \<open>if (this.config.apiKey)\<close>). Then every request that reaches \<open>fetch\<close> carries the
  header \<open>X-API-Key\<close> with the key, carries \<open>X-Organization-ID\<close> with the organization
  if one is configured (non-empty), and carries no \<open>Authorization\<close> header, whatever
  token the client has and whatever the default and call-level headers hold.
\<close>

theorem api_key_requests_carry_key_and_no_authorization:
  assumes key: "apiKey cfg = Some key" "key \<noteq> []"
    and sent: "Fetch init \<in> set (snd (request hst cfg path' opts))"
  shows "headers_has (fetch_headers init) ''X-API-Key''
       \<and> headers_get (fetch_headers init) ''X-API-Key'' = Some (normalize_value key)
       \<and> (\<forall>org. organizationId cfg = Some org \<and> org \<noteq> [] \<longrightarrow>
              headers_has (fetch_headers init) ''X-Organization-ID''
              \<and> headers_get (fetch_headers init) ''X-Organization-ID'' = Some (normalize_value org))
       \<and> \<not> headers_has (fetch_headers init) ''Authorization''"
proof -
  from sent obtain ts evs where "build_request hst cfg path' opts = (Inr (init, ts), evs)"
    using request_fetch_event by blast
  from build_request_parts [OF this] obtain h0 h1 where
    auth: "apply_auth cfg path' h0 = (Inr h1, evs)"
    and bodyp: "prepare_body hst (body opts) h1 = Inr (fetch_body init, fetch_headers init)"
    by blast
  from auth key have ak: "api_key_auth cfg key path' h0 = (Inr h1, evs)"
    by (simp add: apply_auth_def)
  have k: "filter (\<lambda>e. fst e = ''x-api-key'') (fetch_headers init)
             = [(''x-api-key'', normalize_value key)]"
    using prepare_body_entries [OF bodyp, of "''x-api-key''"] api_key_auth_entries(1) [OF ak]
    by simp
  have a: "filter (\<lambda>e. fst e = ''authorization'') (fetch_headers init) = []"
    using prepare_body_entries [OF bodyp, of "''authorization''"] api_key_auth_entries(3) [OF ak]
    by simp
  have o: "filter (\<lambda>e. fst e = ''x-organization-id'') (fetch_headers init)
             = [(''x-organization-id'', normalize_value org)]"
    if "organizationId cfg = Some org" "org \<noteq> []" for org
    using prepare_body_entries [OF bodyp, of "''x-organization-id''"]
      api_key_auth_entries(2) [OF ak that]
    by simp
  show ?thesis
    using k a o
    by (simp add: headers_has_entries lc_names headers_get_def)
qed

text \<open>
  A client with a key, a token and an organization, an \<open>Authorization\<close> header among its
  defaults and another one on the call.
\<close>

theorem api_key_requests_carry_key_and_no_authorization_witness:
  "apiKey (example_config\<lparr>apiKey := Some ''k1'', authToken := Some ''tok'',
             organizationId := Some ''org1'',
             defaultHeaders := Some [(''Content-Type'', ''application/json''),
                                     (''Authorization'', ''Bearer default'')]\<rparr>) = Some ''k1''
   \<and> Fetch (example_init\<lparr>fetch_headers := [(''content-type'', ''application/json''),
                                            (''x-api-key'', ''k1''),
                                            (''x-organization-id'', ''org1'')]\<rparr>)
       \<in> set (snd (request (example_host False (Rejected (TypeError ''fetch failed'')))
                    (example_config\<lparr>apiKey := Some ''k1'', authToken := Some ''tok'',
                       organizationId := Some ''org1'',
                       defaultHeaders := Some [(''Content-Type'', ''application/json''),
                                               (''Authorization'', ''Bearer default'')]\<rparr>)
                    ''/wallets''
                    (example_options\<lparr>headers := Some [(''authorization'', ''Bearer call'')]\<rparr>)))
   \<and> headers_get [(''content-type'', ''application/json''), (''x-api-key'', ''k1''),
                   (''x-organization-id'', ''org1'')] ''X-API-Key'' = Some ''k1''
   \<and> headers_get [(''content-type'', ''application/json''), (''x-api-key'', ''k1''),
                   (''x-organization-id'', ''org1'')] ''X-Organization-ID'' = Some ''org1''
   \<and> \<not> headers_has [(''content-type'', ''application/json''), (''x-api-key'', ''k1''),
                     (''x-organization-id'', ''org1'')] ''Authorization''"
proof -
  let ?cfg = "example_config\<lparr>apiKey := Some ''k1'', authToken := Some ''tok'',
             organizationId := Some ''org1'',
             defaultHeaders := Some [(''Content-Type'', ''application/json''),
                                     (''Authorization'', ''Bearer default'')]\<rparr>"
  let ?h = "[(''content-type'', ''application/json''), (''x-api-key'', ''k1''),
             (''x-organization-id'', ''org1'')]"
  have key: "apiKey ?cfg = Some ''k1''" "''k1'' \<noteq> []" by simp_all
  have org: "organizationId ?cfg = Some ''org1'' \<and> ''org1'' \<noteq> []" by simp
  have sent: "Fetch (example_init\<lparr>fetch_headers := ?h\<rparr>)
       \<in> set (snd (request (example_host False (Rejected (TypeError ''fetch failed''))) ?cfg
                    ''/wallets''
                    (example_options\<lparr>headers := Some [(''authorization'', ''Bearer call'')]\<rparr>)))"
    by code_simp
  have n: "normalize_value ''k1'' = ''k1''" "normalize_value ''org1'' = ''org1''" by code_simp+
  from api_key_requests_carry_key_and_no_authorization [OF key sent] org n
  have "headers_get ?h ''X-API-Key'' = Some ''k1''"
    "headers_get ?h ''X-Organization-ID'' = Some ''org1''"
    "\<not> headers_has ?h ''Authorization''"
    by simp_all
  with key(1) sent show ?thesis by blast
qed

text \<open>
  Claim C3. Whenever a request reaches \<open>fetch\<close>, the query of its URL is what the URL
  string already carried, followed, in the order supplied, by one entry
  \<open>(key, String(value))\<close> for every query parameter of the call whose value is neither
  \<open>undefined\<close> nor \<open>null\<close>; those two are dropped. \<open>formatQueryParams\<close>, through which the
  resource modules pass parameters that may hold dates, drops the same entries, turns a
  \<open>Date\<close> into its ISO-8601 string and keeps every other value. So the query of a request
  with formatted parameters has a \<open>Date\<close> in ISO-8601, every other value as it is, and no
  entry for \<open>undefined\<close> or \<open>null\<close>.
\<close>

theorem query_params_serialized:
  "(Fetch init \<in> set (snd (request hst cfg path' (opts\<lparr>queryParams := Some q\<rparr>)))
      \<longrightarrow> (\<exists>sp. url_parse hst (baseURL cfg @ (if starts_with path' ''/'' then path' else ''/'' @ path'))
                  = Some sp
            \<and> searchParams (fetch_url init) =
                sp @ map (\<lambda>kv. (fst kv, qvalue_String (snd kv)))
                       (filter (\<lambda>kv. snd kv \<noteq> QUndefined \<and> snd kv \<noteq> QNull) q)))
   \<and> formatQueryParams params =
       map (\<lambda>kv. (fst kv, case snd kv of PDate d \<Rightarrow> QStr (toISOString d) | PVal v \<Rightarrow> v))
         (filter (\<lambda>kv. snd kv \<noteq> PVal QUndefined \<and> snd kv \<noteq> PVal QNull) params)
   \<and> (Fetch init' \<in> set (snd (request hst cfg path'
                                 (opts\<lparr>queryParams := Some (formatQueryParams params)\<rparr>)))
      \<longrightarrow> (\<exists>sp. url_parse hst (baseURL cfg @ (if starts_with path' ''/'' then path' else ''/'' @ path'))
                  = Some sp
            \<and> searchParams (fetch_url init') =
                sp @ map (\<lambda>kv. (fst kv, case snd kv of PDate d \<Rightarrow> toISOString d
                                                | PVal v \<Rightarrow> qvalue_String v))
                       (filter (\<lambda>kv. snd kv \<noteq> PVal QUndefined \<and> snd kv \<noteq> PVal QNull) params)))"
proof (intro conjI impI)
  assume "Fetch init \<in> set (snd (request hst cfg path' (opts\<lparr>queryParams := Some q\<rparr>)))"
  from sent_searchParams [OF this]
  show "\<exists>sp. url_parse hst (baseURL cfg @ (if starts_with path' ''/'' then path' else ''/'' @ path'))
                  = Some sp
            \<and> searchParams (fetch_url init) =
                sp @ map (\<lambda>kv. (fst kv, qvalue_String (snd kv)))
                       (filter (\<lambda>kv. snd kv \<noteq> QUndefined \<and> snd kv \<noteq> QNull) q)"
    using append_query_filter by auto
next
  show "formatQueryParams params =
       map (\<lambda>kv. (fst kv, case snd kv of PDate d \<Rightarrow> QStr (toISOString d) | PVal v \<Rightarrow> v))
         (filter (\<lambda>kv. snd kv \<noteq> PVal QUndefined \<and> snd kv \<noteq> PVal QNull) params)"
    by (rule formatQueryParams_filter)
next
  assume "Fetch init' \<in> set (snd (request hst cfg path'
                                 (opts\<lparr>queryParams := Some (formatQueryParams params)\<rparr>)))"
  from sent_searchParams [OF this]
  show "\<exists>sp. url_parse hst (baseURL cfg @ (if starts_with path' ''/'' then path' else ''/'' @ path'))
                  = Some sp
            \<and> searchParams (fetch_url init') =
                sp @ map (\<lambda>kv. (fst kv, case snd kv of PDate d \<Rightarrow> toISOString d
                                                | PVal v \<Rightarrow> qvalue_String v))
                       (filter (\<lambda>kv. snd kv \<noteq> PVal QUndefined \<and> snd kv \<noteq> PVal QNull) params)"
    by (simp add: append_query_formatQueryParams)
qed

text \<open>
  A list call with an absent offset; and the example of the claim: of
  \<open>{a: undefined, b: null, c: <Date>, d: "x"}\<close>, with the epoch as the date, only \<open>c\<close> (in
  ISO-8601) and \<open>d\<close> are in the query.
\<close>

theorem query_params_serialized_witness:
  "Fetch (example_init\<lparr>fetch_url := \<lparr>href = ''https://api.example.com/wallets'',
                                        searchParams = [(''limit'', ''10''), (''active'', ''true'')]\<rparr>\<rparr>)
     \<in> set (snd (request (example_host False (Rejected (TypeError ''fetch failed'')))
                  example_config ''/wallets''
                  (example_options\<lparr>queryParams := Some
                      [(''limit'', QNum 10), (''offset'', QUndefined), (''active'', QBool True)]\<rparr>)))
   \<and> formatQueryParams
         [(''a'', PVal QUndefined), (''b'', PVal QNull), (''c'', PDate (JsDate 0)),
          (''d'', PVal (QStr ''x''))]
       = [(''c'', QStr ''1970-01-01T00:00:00.000Z''), (''d'', QStr ''x'')]
   \<and> Fetch (example_init\<lparr>fetch_url := \<lparr>href = ''https://api.example.com/transactions'',
                 searchParams = [(''c'', ''1970-01-01T00:00:00.000Z''), (''d'', ''x'')]\<rparr>\<rparr>)
     \<in> set (snd (request (example_host False (Rejected (TypeError ''fetch failed'')))
                  example_config ''transactions''
                  (example_options\<lparr>queryParams := Some (formatQueryParams
                      [(''a'', PVal QUndefined), (''b'', PVal QNull), (''c'', PDate (JsDate 0)),
                       (''d'', PVal (QStr ''x''))])\<rparr>)))
   \<and> [(''c'', ''1970-01-01T00:00:00.000Z''), (''d'', ''x'')] =
       [] @ map (\<lambda>kv. (fst kv, case snd kv of PDate d \<Rightarrow> toISOString d | PVal v \<Rightarrow> qvalue_String v))
         (filter (\<lambda>kv. snd kv \<noteq> PVal QUndefined \<and> snd kv \<noteq> PVal QNull)
            [(''a'', PVal QUndefined), (''b'', PVal QNull), (''c'', PDate (JsDate 0)),
             (''d'', PVal (QStr ''x''))])"
  (is "?direct \<and> ?formatted \<and> ?sent \<and> ?serialized")
proof (intro conjI)
  show ?direct by code_simp
  show ?formatted by code_simp
  show sent: ?sent by code_simp
  from query_params_serialized
         [where init' = "example_init\<lparr>fetch_url := \<lparr>href = ''https://api.example.com/transactions'',
                 searchParams = [(''c'', ''1970-01-01T00:00:00.000Z''), (''d'', ''x'')]\<rparr>\<rparr>"
            and hst = "example_host False (Rejected (TypeError ''fetch failed''))"
            and cfg = example_config and path' = "''transactions''" and opts = example_options
            and params = "[(''a'', PVal QUndefined), (''b'', PVal QNull), (''c'', PDate (JsDate 0)),
              (''d'', PVal (QStr ''x''))]"] sent
  show ?serialized
    by (simp add: example_host_def example_init_def)
qed

text \<open>
  Claim C4, as amended. A request was sent and answered with a 2xx response that reached
  the parsing step and whose body parsed. If the body is an object whose \<open>success\<close> is
  \<open>true\<close> and that has an own property \<open>data\<close>, \<open>request\<close> returns the value of \<open>data\<close>.
  If the body does not have that shape, \<open>request\<close> returns the body unchanged, provided
  the call expects no status or expects the status of the response. In both cases no own
  property \<open>hasOwnProperty\<close> shadows the method that the guard calls on a body whose
  \<open>success\<close> is \<open>true\<close>.
\<close>

theorem envelope_unwrapped_bare_body_unchanged:
  assumes sent: "Fetch init \<in> set (snd (request hst cfg path' opts))"
    and resp: "do_fetch hst init = Resolved r"
    and ok: "ok r"
    and parsed: "status r \<noteq> 204" "headers_get (resp_headers r) ''Content-Length'' \<noteq> Some ''0''"
      "json_result r = Inr b"
  shows "(get_prop b ''success'' = Bool True \<and> has_own b ''data'' \<and> \<not> has_own b ''hasOwnProperty''
            \<longrightarrow> fst (request hst cfg path' opts) = Inr (get_prop b ''data''))
       \<and> ((get_prop b ''success'' \<noteq> Bool True
             \<or> (\<not> has_own b ''data'' \<and> \<not> has_own b ''hasOwnProperty''))
            \<and> (\<not> num_truthy (expectedStatus opts) \<or> is_expected (expectedStatus opts) r)
            \<longrightarrow> fst (request hst cfg path' opts) = Inr b)"
  using request_success_parsed [OF sent resp _ parsed] ok
    isSuccessWrapper_False [of b] isSuccessWrapper_True [of b]
  by auto

text \<open>
  The claim as stated fails: to a call that expects 202, a 200 response with the wrapped
  body yields \<open>{id: "1"}\<close>, and a 200 response with the bare body \<open>{id: "1"}\<close> is a
  status mismatch.
\<close>

theorem envelope_counterexample:
  "ok (json_response 200 [] (Obj [(''id'', Str ''1'')]))
   \<and> fst (example_get (Some 202)
            (json_response 200 [] (Obj [(''success'', Bool True), (''data'', Obj [(''id'', Str ''1'')])])))
       = Inr (Obj [(''id'', Str ''1'')])
   \<and> fst (example_get (Some 202) (json_response 200 [] (Obj [(''id'', Str ''1'')])))
       = Inl (SDKError ''Unexpected successful response structure or status mismatch. Status: 200, Expected: 202'')"
  by code_simp

text \<open>
  The bodies \<open>{success: true, data: {id: "1"}}\<close> and \<open>{id: "1"}\<close>, with status 200 and
  no expected status, give the caller the same result.
\<close>

theorem envelope_unwrapped_bare_body_unchanged_witness:
  "Fetch example_init \<in> set (snd (example_get None
       (json_response 200 [] (Obj [(''success'', Bool True), (''data'', Obj [(''id'', Str ''1'')])]))))
   \<and> ok (json_response 200 [] (Obj [(''success'', Bool True), (''data'', Obj [(''id'', Str ''1'')])]))
   \<and> fst (example_get None
            (json_response 200 [] (Obj [(''success'', Bool True), (''data'', Obj [(''id'', Str ''1'')])])))
       = Inr (Obj [(''id'', Str ''1'')])
   \<and> Fetch example_init \<in> set (snd (example_get None (json_response 200 [] (Obj [(''id'', Str ''1'')]))))
   \<and> ok (json_response 200 [] (Obj [(''id'', Str ''1'')]))
   \<and> fst (example_get None (json_response 200 [] (Obj [(''id'', Str ''1'')])))
       = Inr (Obj [(''id'', Str ''1'')])"
proof -
  let ?w = "Obj [(''success'', Bool True), (''data'', Obj [(''id'', Str ''1'')])]"
  let ?b = "Obj [(''id'', Str ''1'')]"
  let ?r = "json_response 200 [] ?w" and ?r' = "json_response 200 [] ?b"
  have sent: "Fetch example_init \<in> set (snd (example_get None ?r))" by code_simp
  have sent': "Fetch example_init \<in> set (snd (example_get None ?r'))" by code_simp
  have resp: "do_fetch (example_host False (Resolved ?r)) example_init = Resolved ?r" by code_simp
  have resp': "do_fetch (example_host False (Resolved ?r')) example_init = Resolved ?r'" by code_simp
  have ok: "ok ?r" "ok ?r'" by code_simp+
  have parsed: "status ?r \<noteq> 204" "headers_get (resp_headers ?r) ''Content-Length'' \<noteq> Some ''0''"
    "json_result ?r = Inr ?w" by code_simp+
  have parsed': "status ?r' \<noteq> 204" "headers_get (resp_headers ?r') ''Content-Length'' \<noteq> Some ''0''"
    "json_result ?r' = Inr ?b" by code_simp+
  have shape: "get_prop ?w ''success'' = Bool True" "has_own ?w ''data''"
    "\<not> has_own ?w ''hasOwnProperty''" "get_prop ?w ''data'' = ?b" by code_simp+
  have bare: "get_prop ?b ''success'' \<noteq> Bool True" by code_simp
  have none: "\<not> num_truthy None" by code_simp
  note t = envelope_unwrapped_bare_body_unchanged [OF sent [unfolded example_get_def] resp ok(1) parsed]
  note t' = envelope_unwrapped_bare_body_unchanged [OF sent' [unfolded example_get_def] resp' ok(2) parsed']
  from t shape have 1: "fst (example_get None ?r) = Inr ?b"
    by (simp add: example_get_def)
  from t' bare none have 2: "fst (example_get None ?r') = Inr ?b"
    by (simp add: example_get_def example_options_def)
  from sent sent' ok 1 2 show ?thesis by blast
qed

text \<open>
  Claim C5. A response with status 401 or 403, not the expected status of the call, should
  raise an \<open>AuthenticationError\<close> whatever its body. The message of the error is built by a
  template literal from \<open>errorBody.message\<close>, outside any \<open>try\<close>. For the JSON body
  \<open>{"message": {"toString": 1}}\<close> that conversion throws, and the call ends with a
  TypeError of the host, which is no \<open>AuthenticationError\<close>.
\<close>

theorem unauthorized_with_unprintable_message:
  "fst (example_get None
          (json_response 401 [] (Obj [(''message'', Obj [(''toString'', Num 1)])])))
     = Inl (HostError (JsExn False ''TypeError'' ''Cannot convert object to primitive value''))"
  by code_simp

text \<open>
  Whenever the message can be converted to a string, the error is the
  \<open>AuthenticationError\<close>.
\<close>

lemma unauthorized_is_authentication_error:
  assumes sent: "Fetch init \<in> set (snd (request hst cfg path' opts))"
    and resp: "do_fetch hst init = Resolved r"
    and st: "status r = 401 \<or> status r = 403"
    and ne: "\<not> is_expected (expectedStatus opts) r"
    and msg: "to_string (error_message (fst (read_error_body r)) (statusText r)) = Some m"
  shows "fst (request hst cfg path' opts) = Inl (AuthenticationError (''Authentication failed: '' @ m))"
proof -
  from st have "\<not> ok r" by (auto simp: ok_def)
  with ne msg st have "fst (interpret_response (expectedStatus opts) r)
      = Inl (AuthenticationError (''Authentication failed: '' @ m))"
    by (auto simp: interpret_response_def error_response_def split: prod.splits)
  with request_responded [OF sent resp] show ?thesis by auto
qed

text \<open>
  Claim C6. If the input of \<open>WalletsAPI.create\<close> fails \<open>WalletCreateRequestSchema\<close>, the
  call throws a \<open>ValidationError\<close> that carries the issues of the schema, of which there is
  at least one, and it has no effect at all: no call of \<open>fetch\<close>, no warning, nothing read.
\<close>

theorem create_invalid_input_raises_before_dispatch:
  assumes "WalletCreateRequestSchema_safeParse hst walletData = Inl issues"
  shows "WalletsAPI_create hst cfg walletData
           = (Inl (ValidationError ''Invalid wallet creation data'' (Some issues)), [])
       \<and> issues \<noteq> []"
  using assms safeParse_issues_nonempty [OF assms]
  by (simp add: WalletsAPI_create_def)

text \<open>An input without the required field \<open>name\<close>.\<close>

theorem create_invalid_input_raises_before_dispatch_witness:
  "WalletCreateRequestSchema_safeParse (example_host False (Rejected (TypeError ''fetch failed'')))
       (Obj [(''blockchain'', Str ''ethereum''),
             (''organizationId'', Str ''3f2504e0-4f89-11d3-9a0c-0305e82c3301'')])
     = Inl [ZodIssue ''invalid_type'' [''name''] ''Required'']
   \<and> WalletsAPI_create (example_host False (Rejected (TypeError ''fetch failed''))) example_config
       (Obj [(''blockchain'', Str ''ethereum''),
             (''organizationId'', Str ''3f2504e0-4f89-11d3-9a0c-0305e82c3301'')])
     = (Inl (ValidationError ''Invalid wallet creation data''
               (Some [ZodIssue ''invalid_type'' [''name''] ''Required''])), [])"
proof -
  have invalid:
    "WalletCreateRequestSchema_safeParse (example_host False (Rejected (TypeError ''fetch failed'')))
       (Obj [(''blockchain'', Str ''ethereum''),
             (''organizationId'', Str ''3f2504e0-4f89-11d3-9a0c-0305e82c3301'')])
     = Inl [ZodIssue ''invalid_type'' [''name''] ''Required'']"
    by code_simp
  from create_invalid_input_raises_before_dispatch [OF invalid, of example_config] invalid
  show ?thesis by blast
qed

text \<open>
  Claim C7, as amended. A request was sent and answered. If the status is 204, or if the
  \<open>Content-Length\<close> is \<open>0\<close> and the response is 2xx or has the expected status of the call,
  then \<open>request\<close> returns \<open>undefined\<close> and reads the body neither as JSON nor as text,
  whatever the body is.
\<close>

theorem no_content_response_is_not_parsed:
  assumes sent: "Fetch init \<in> set (snd (request hst cfg path' opts))"
    and resp: "do_fetch hst init = Resolved r"
    and no_content: "status r = 204
        \<or> (headers_get (resp_headers r) ''Content-Length'' = Some ''0''
            \<and> (ok r \<or> is_expected (expectedStatus opts) r))"
  shows "fst (request hst cfg path' opts) = Inr Undefined
       \<and> ReadJson \<notin> set (snd (request hst cfg path' opts))
       \<and> ReadText \<notin> set (snd (request hst cfg path' opts))"
proof -
  from no_content have succ: "ok r \<or> is_expected (expectedStatus opts) r"
    using ok_204 by blast
  from no_content have "success_response (expectedStatus opts) r = (Inr Undefined, [])"
    by (intro success_no_content) blast
  with interpret_success [OF succ]
  have "interpret_response (expectedStatus opts) r = (Inr Undefined, [])" by simp
  with request_responded [OF sent resp] show ?thesis by auto
qed

text \<open>
  The claim as stated fails: a 404 response with \<open>Content-Length: 0\<close> raises an
  \<open>APIError\<close>, after its body was read.
\<close>

theorem no_content_counterexample:
  "headers_get (resp_headers
       \<lparr>status = 404, statusText = ''Not Found'', resp_headers = [(''content-length'', ''0'')],
        json_result = Inl (JsExn False ''SyntaxError'' ''Unexpected end of JSON input''),
        text_result = Inr ''''\<rparr>) ''Content-Length'' = Some ''0''
   \<and> fst (example_get None
       \<lparr>status = 404, statusText = ''Not Found'', resp_headers = [(''content-length'', ''0'')],
        json_result = Inl (JsExn False ''SyntaxError'' ''Unexpected end of JSON input''),
        text_result = Inr ''''\<rparr>)
       = Inl (APIError ''API request failed with status 404: '' 404 (Str '''')
                [(''content-length'', ''0'')])
   \<and> ReadText \<in> set (snd (example_get None
       \<lparr>status = 404, statusText = ''Not Found'', resp_headers = [(''content-length'', ''0'')],
        json_result = Inl (JsExn False ''SyntaxError'' ''Unexpected end of JSON input''),
        text_result = Inr ''''\<rparr>))"
  by code_simp

text \<open>
  A 204 response and a 200 response with \<open>Content-Length: 0\<close>, both with a body that is
  not JSON.
\<close>

theorem no_content_response_is_not_parsed_witness:
  "Fetch example_init \<in> set (snd (example_get None
       \<lparr>status = 204, statusText = ''No Content'', resp_headers = [],
        json_result = Inl (JsExn False ''SyntaxError'' ''Unexpected end of JSON input''),
        text_result = Inr ''''\<rparr>))
   \<and> example_get None
       \<lparr>status = 204, statusText = ''No Content'', resp_headers = [],
        json_result = Inl (JsExn False ''SyntaxError'' ''Unexpected end of JSON input''),
        text_result = Inr ''''\<rparr> = (Inr Undefined, [Fetch example_init])
   \<and> Fetch example_init \<in> set (snd (example_get None
       \<lparr>status = 200, statusText = ''OK'', resp_headers = [(''content-length'', ''0'')],
        json_result = Inl (JsExn False ''SyntaxError'' ''Unexpected end of JSON input''),
        text_result = Inr ''''\<rparr>))
   \<and> fst (example_get None
       \<lparr>status = 200, statusText = ''OK'', resp_headers = [(''content-length'', ''0'')],
        json_result = Inl (JsExn False ''SyntaxError'' ''Unexpected end of JSON input''),
        text_result = Inr ''''\<rparr>) = Inr Undefined"
proof -
  let ?r = "\<lparr>status = 204, statusText = ''No Content'', resp_headers = [],
        json_result = Inl (JsExn False ''SyntaxError'' ''Unexpected end of JSON input''),
        text_result = Inr ''''\<rparr>"
  let ?r' = "\<lparr>status = 200, statusText = ''OK'', resp_headers = [(''content-length'', ''0'')],
        json_result = Inl (JsExn False ''SyntaxError'' ''Unexpected end of JSON input''),
        text_result = Inr ''''\<rparr>"
  have sent: "Fetch example_init \<in> set (snd (example_get None ?r))" by code_simp
  have sent': "Fetch example_init \<in> set (snd (example_get None ?r'))" by code_simp
  have resp: "do_fetch (example_host False (Resolved ?r)) example_init = Resolved ?r" by code_simp
  have resp': "do_fetch (example_host False (Resolved ?r')) example_init = Resolved ?r'" by code_simp
  have nc: "status ?r = 204
      \<or> (headers_get (resp_headers ?r) ''Content-Length'' = Some ''0''
          \<and> (ok ?r \<or> is_expected (expectedStatus (example_options\<lparr>expectedStatus := None\<rparr>)) ?r))"
    by simp
  have "headers_get (resp_headers ?r') ''Content-Length'' = Some ''0''" "ok ?r'" by code_simp+
  then have nc': "status ?r' = 204
      \<or> (headers_get (resp_headers ?r') ''Content-Length'' = Some ''0''
          \<and> (ok ?r' \<or> is_expected (expectedStatus (example_options\<lparr>expectedStatus := None\<rparr>)) ?r'))"
    by blast
  have events: "snd (example_get None ?r) = [Fetch example_init]" by code_simp
  from no_content_response_is_not_parsed [OF sent [unfolded example_get_def] resp nc]
  have 1: "example_get None ?r = (Inr Undefined, [Fetch example_init])"
    using events by (simp add: example_get_def prod_eq_iff)
  from no_content_response_is_not_parsed [OF sent' [unfolded example_get_def] resp' nc']
  have 2: "fst (example_get None ?r') = Inr Undefined"
    by (simp add: example_get_def)
  from sent sent' 1 2 show ?thesis by blast
qed

text \<open>
  Claim C8. A timeout should raise a \<open>NetworkError\<close> that reports the timeout, and a
  cancellation by the caller the \<open>SDKError\<close> "Request aborted". The \<open>catch\<close> around
  \<open>fetch\<close> tells the two apart, but the signal stays attached once \<open>fetch\<close> has
  resolved. A client with a timeout of 5000 ms gets a 200 response whose body is still
  arriving: if the timer expires then, and likewise if the caller cancels then,
  \<open>response.json()\<close> rejects with the \<open>AbortError\<close> of the combined signal, and the
  \<open>catch\<close> around the parsing step turns it into the same \<open>SDKError\<close> for a failure to
  parse. A timeout is then no \<open>NetworkError\<close>, and the two causes give the caller the
  same error.
\<close>

theorem abort_while_reading_body_is_conflated:
  "fst (request ((example_host False (Resolved (json_response 200 [] (Obj [(''id'', Str ''1'')]))))
                   \<lparr>timer_fires := Some ReadingBody\<rparr>)
          (example_config\<lparr>timeout := Some 5000\<rparr>) ''/wallets'' example_options)
     = Inl (SDKError
         ''Failed to parse response body as JSON or unexpected structure: This operation was aborted'')
   \<and> fst (request (example_host False (Resolved (json_response 200 [] (Obj [(''id'', Str ''1'')]))))
          (example_config\<lparr>timeout := Some 5000\<rparr>) ''/wallets''
          (example_options\<lparr>signal :=
             Some (AbortSignal (Some (ReadingBody, JsExn True ''AbortError'' ''cancelled by the user'')))\<rparr>))
     = Inl (SDKError
         ''Failed to parse response body as JSON or unexpected structure: This operation was aborted'')"
  by code_simp

text \<open>
  On a response that is an error, an abort while the body is being read is ignored with
  every other failure to read it: both causes end in the \<open>APIError\<close> of the status.
\<close>

lemma abort_while_reading_error_body_is_ignored:
  "fst (request ((example_host False (Resolved (json_response 500 [] (Obj [(''message'', Str ''boom'')]))))
                   \<lparr>timer_fires := Some ReadingBody\<rparr>)
          (example_config\<lparr>timeout := Some 5000\<rparr>) ''/wallets'' example_options)
     = Inl (APIError ''API request failed with status 500: '' 500 Null
              [(''content-type'', ''application/json'')])
   \<and> fst (request (example_host False (Resolved (json_response 500 [] (Obj [(''message'', Str ''boom'')]))))
          (example_config\<lparr>timeout := Some 5000\<rparr>) ''/wallets''
          (example_options\<lparr>signal :=
             Some (AbortSignal (Some (ReadingBody, JsExn True ''AbortError'' ''cancelled by the user'')))\<rparr>))
     = Inl (APIError ''API request failed with status 500: '' 500 Null
              [(''content-type'', ''application/json'')])"
  by code_simp

text \<open>
  While \<open>fetch\<close> is pending the two causes are told apart. A request was sent. If the
  client has a timeout and its timer expires before \<open>fetch\<close> settles, \<open>request\<close> throws a
  \<open>NetworkError\<close> whose message gives the timeout. If the caller's signal is aborted
  before \<open>fetch\<close> settles and no timer of the client has expired by then, \<open>request\<close>
  throws the \<open>SDKError\<close> "Request aborted". Both reach the \<open>catch\<close> as the same
  \<open>AbortError\<close> of the combined signal.
\<close>

lemma abort_before_response_is_classified:
  assumes sent: "Fetch init \<in> set (snd (request hst cfg path' opts))"
  shows "(timeout cfg = Some n \<and> n \<noteq> 0 \<and> timer_fires hst = Some InFlight
            \<longrightarrow> fst (request hst cfg path' opts)
                  = Inl (NetworkError (''Request timed out after '' @ show_int n @ ''ms'')
                           (default_abort_reason hst)))
       \<and> (signal opts = Some s \<and> aborted s
            \<and> (timer_fires hst = Some InFlight \<longrightarrow> \<not> num_truthy (timeout cfg))
            \<longrightarrow> fst (request hst cfg path' opts)
                  = Inl (SDKError (''Request aborted: '' @ abort_message hst)))"
proof (intro conjI impI)
  assume t: "timeout cfg = Some n \<and> n \<noteq> 0 \<and> timer_fires hst = Some InFlight"
  from sent obtain ts evs where b: "build_request hst cfg path' opts = (Inr (init, ts), evs)"
    using request_fetch_event by blast
  from build_request_parts [OF b] have ts: "new_timeoutSignal hst cfg = Inr ts"
    and sig: "fetch_signal init = getCombinedSignal hst [signal opts, Some (AbortSignal None), ts]"
    by blast+
  from ts t obtain tsig where tsig: "ts = Some tsig" "aborted tsig"
    by (auto simp: new_timeoutSignal_def AbortSignal_timeout_def aborted_def split: if_splits)
  from sig tsig have "do_fetch hst init = Rejected (default_abort_reason hst)"
    by (simp add: combined_timeout do_fetch_aborted)
  from request_rejected [OF sent this] ts tsig t
  show "fst (request hst cfg path' opts)
          = Inl (NetworkError (''Request timed out after '' @ show_int n @ ''ms'')
                   (default_abort_reason hst))"
    by (auto simp: classify_fetch_error_def default_abort_reason_def timeout_text_def)
next
  assume c: "signal opts = Some s \<and> aborted s
               \<and> (timer_fires hst = Some InFlight \<longrightarrow> \<not> num_truthy (timeout cfg))"
  from sent obtain ts evs where b: "build_request hst cfg path' opts = (Inr (init, ts), evs)"
    using request_fetch_event by blast
  from build_request_parts [OF b] have ts: "new_timeoutSignal hst cfg = Inr ts"
    and sig: "fetch_signal init = getCombinedSignal hst [signal opts, Some (AbortSignal None), ts]"
    by blast+
  from ts c have na: "case ts of None \<Rightarrow> True | Some x \<Rightarrow> \<not> aborted x"
    by (auto simp: new_timeoutSignal_def AbortSignal_timeout_def aborted_def num_truthy_def
             split: if_splits option.splits phase.splits)
  from sig c have "do_fetch hst init = Rejected (default_abort_reason hst)"
    by (simp add: combined_aborted do_fetch_aborted)
  from request_rejected [OF sent this] ts na
  show "fst (request hst cfg path' opts) = Inl (SDKError (''Request aborted: '' @ abort_message hst))"
    by (auto simp: classify_fetch_error_def default_abort_reason_def split: option.splits)
qed

text \<open>
  A client with a timeout of 5000 ms: once the timer expires while \<open>fetch\<close> is pending,
  once the caller cancels then.
\<close>

lemma abort_before_response_examples:
  "fst (request (example_host True (Resolved (json_response 200 [] Null)))
          (example_config\<lparr>timeout := Some 5000\<rparr>) ''/wallets'' example_options)
     = Inl (NetworkError ''Request timed out after 5000ms''
              (JsExn True ''AbortError'' ''This operation was aborted''))
   \<and> fst (request (example_host False (Resolved (json_response 200 [] Null)))
          (example_config\<lparr>timeout := Some 5000\<rparr>) ''/wallets''
          (example_options\<lparr>signal :=
             Some (AbortSignal (Some (InFlight, JsExn True ''AbortError'' ''cancelled by the user'')))\<rparr>))
     = Inl (SDKError ''Request aborted: This operation was aborted'')"
  by code_simp

text \<open>
  Claim C9, as amended. A request was sent and answered with a 2xx response that reached
  the parsing step, and its body parsed to an object whose \<open>success\<close> is \<open>false\<close>, or
  whose \<open>success\<close> is \<open>true\<close> and that has neither an own \<open>data\<close> nor an own
  \<open>hasOwnProperty\<close>. If the call expects no status, or expects the status of the response,
  \<open>request\<close> returns the whole object unchanged.
\<close>

theorem unsuccessful_envelope_returned_whole:
  assumes sent: "Fetch init \<in> set (snd (request hst cfg path' opts))"
    and resp: "do_fetch hst init = Resolved r"
    and ok: "ok r"
    and parsed: "status r \<noteq> 204" "headers_get (resp_headers r) ''Content-Length'' \<noteq> Some ''0''"
      "json_result r = Inr (Obj kvs)"
    and shape: "map_of kvs ''success'' = Some (Bool False)
               \<or> (map_of kvs ''success'' = Some (Bool True) \<and> map_of kvs ''data'' = None
                   \<and> map_of kvs ''hasOwnProperty'' = None)"
    and expected: "\<not> num_truthy (expectedStatus opts) \<or> is_expected (expectedStatus opts) r"
  shows "fst (request hst cfg path' opts) = Inr (Obj kvs)"
proof -
  from shape have "isSuccessWrapper (Obj kvs) = Inr False"
    by (intro isSuccessWrapper_False) auto
  with request_success_parsed [OF sent resp _ parsed] ok expected show ?thesis
    by auto
qed

text \<open>
  The claim as stated fails: to a call that expects 202, a 200 response with the body
  \<open>{success: false, error: "insufficient funds"}\<close> is a status mismatch.
\<close>

theorem unsuccessful_envelope_counterexample:
  "ok (json_response 200 [] (Obj [(''success'', Bool False), (''error'', Str ''insufficient funds'')]))
   \<and> fst (example_get (Some 202)
            (json_response 200 [] (Obj [(''success'', Bool False), (''error'', Str ''insufficient funds'')])))
       = Inl (SDKError ''Unexpected successful response structure or status mismatch. Status: 200, Expected: 202'')"
  by code_simp

text \<open>
  The bodies \<open>{success: false, error: "insufficient funds"}\<close> and \<open>{success: true}\<close>,
  with status 200 and no expected status.
\<close>

theorem unsuccessful_envelope_returned_whole_witness:
  "Fetch example_init \<in> set (snd (example_get None
       (json_response 200 [] (Obj [(''success'', Bool False), (''error'', Str ''insufficient funds'')]))))
   \<and> ok (json_response 200 [] (Obj [(''success'', Bool False), (''error'', Str ''insufficient funds'')]))
   \<and> fst (example_get None
            (json_response 200 [] (Obj [(''success'', Bool False), (''error'', Str ''insufficient funds'')])))
       = Inr (Obj [(''success'', Bool False), (''error'', Str ''insufficient funds'')])
   \<and> Fetch example_init \<in> set (snd (example_get None (json_response 200 [] (Obj [(''success'', Bool True)]))))
   \<and> fst (example_get None (json_response 200 [] (Obj [(''success'', Bool True)])))
       = Inr (Obj [(''success'', Bool True)])"
proof -
  let ?kvs = "[(''success'', Bool False), (''error'', Str ''insufficient funds'')]"
  let ?kvs' = "[(''success'', Bool True)]"
  let ?r = "json_response 200 [] (Obj ?kvs)" and ?r' = "json_response 200 [] (Obj ?kvs')"
  have sent: "Fetch example_init \<in> set (snd (example_get None ?r))" by code_simp
  have sent': "Fetch example_init \<in> set (snd (example_get None ?r'))" by code_simp
  have resp: "do_fetch (example_host False (Resolved ?r)) example_init = Resolved ?r" by code_simp
  have resp': "do_fetch (example_host False (Resolved ?r')) example_init = Resolved ?r'" by code_simp
  have ok: "ok ?r" "ok ?r'" by code_simp+
  have parsed: "status ?r \<noteq> 204" "headers_get (resp_headers ?r) ''Content-Length'' \<noteq> Some ''0''"
    "json_result ?r = Inr (Obj ?kvs)" by code_simp+
  have parsed': "status ?r' \<noteq> 204" "headers_get (resp_headers ?r') ''Content-Length'' \<noteq> Some ''0''"
    "json_result ?r' = Inr (Obj ?kvs')" by code_simp+
  have shape: "map_of ?kvs ''success'' = Some (Bool False)
      \<or> (map_of ?kvs ''success'' = Some (Bool True) \<and> map_of ?kvs ''data'' = None
          \<and> map_of ?kvs ''hasOwnProperty'' = None)" by simp
  have shape': "map_of ?kvs' ''success'' = Some (Bool False)
      \<or> (map_of ?kvs' ''success'' = Some (Bool True) \<and> map_of ?kvs' ''data'' = None
          \<and> map_of ?kvs' ''hasOwnProperty'' = None)" by simp
  have none: "\<not> num_truthy (expectedStatus (example_options\<lparr>expectedStatus := None\<rparr>))
      \<or> is_expected (expectedStatus (example_options\<lparr>expectedStatus := None\<rparr>)) ?r"
    "\<not> num_truthy (expectedStatus (example_options\<lparr>expectedStatus := None\<rparr>))
      \<or> is_expected (expectedStatus (example_options\<lparr>expectedStatus := None\<rparr>)) ?r'"
    by (simp_all add: num_truthy_def)
  from unsuccessful_envelope_returned_whole
         [OF sent [unfolded example_get_def] resp ok(1) parsed shape none(1)]
  have 1: "fst (example_get None ?r) = Inr (Obj ?kvs)"
    by (simp add: example_get_def)
  from unsuccessful_envelope_returned_whole
         [OF sent' [unfolded example_get_def] resp' ok(2) parsed' shape' none(2)]
  have 2: "fst (example_get None ?r') = Inr (Obj ?kvs')"
    by (simp add: example_get_def)
  from sent sent' ok(1) 1 2 show ?thesis by blast
qed

text \<open>
  Claim C10. If the body of the call is the empty string, \<open>0\<close>, \<open>false\<close>, \<open>null\<close> or
  \<open>undefined\<close>, the body step produces no body and leaves the headers as they are,
  whatever \<open>JSON.stringify\<close> would do; the whole call is the call without a body, and
  every request that reaches \<open>fetch\<close> has no body.
\<close>

theorem falsy_body_is_not_sent:
  assumes "b \<in> {Str [], Num 0, Bool False, Null, Undefined}"
  shows "prepare_body hst (JsBody b) h = Inr (None, h)
       \<and> request hst cfg path' (opts\<lparr>body := JsBody b\<rparr>)
           = request hst cfg path' (opts\<lparr>body := JsBody Undefined\<rparr>)
       \<and> (Fetch init \<in> set (snd (request hst cfg path' (opts\<lparr>body := JsBody b\<rparr>)))
            \<longrightarrow> fetch_body init = None)"
proof -
  from assms have f: "\<not> truthy b" by (simp add: falsy_values)
  have 1: "prepare_body hst (JsBody b) h = Inr (None, h)"
    by (rule prepare_body_falsy [OF f])
  have 2: "request hst cfg path' (opts\<lparr>body := JsBody b\<rparr>)
           = request hst cfg path' (opts\<lparr>body := JsBody Undefined\<rparr>)"
    by (simp add: request_def build_request_falsy [OF f]
             cong: sum.case_cong prod.case_cong fetch_outcome.case_cong)
  have 3: "fetch_body init = None"
    if "Fetch init \<in> set (snd (request hst cfg path' (opts\<lparr>body := JsBody b\<rparr>)))"
  proof -
    from that obtain ts evs where
      "build_request hst cfg path' (opts\<lparr>body := JsBody b\<rparr>) = (Inr (init, ts), evs)"
      using request_fetch_event by blast
    from build_request_parts [OF this] obtain h1 where
      "prepare_body hst (JsBody b) h1 = Inr (fetch_body init, fetch_headers init)"
      by auto
    with prepare_body_falsy [OF f, of hst h1] show ?thesis by simp
  qed
  from 1 2 3 show ?thesis by blast
qed

text \<open>A \<open>POST\<close> with the empty string as its body.\<close>

theorem falsy_body_is_not_sent_witness:
  "Str [] \<in> {Str [], Num 0, Bool False, Null, Undefined}
   \<and> prepare_body (example_host False (Rejected (TypeError ''fetch failed''))) (JsBody (Str []))
         [(''content-type'', ''application/json'')]
       = Inr (None, [(''content-type'', ''application/json'')])
   \<and> Fetch (example_init\<lparr>fetch_method := POST\<rparr>)
       \<in> set (snd (request (example_host False (Rejected (TypeError ''fetch failed''))) example_config
                    ''/wallets'' (example_options\<lparr>http_method := Some POST, body := JsBody (Str [])\<rparr>)))
   \<and> fetch_body (example_init\<lparr>fetch_method := POST\<rparr>) = None"
proof -
  have falsy: "Str [] \<in> {Str [], Num 0, Bool False, Null, Undefined}" by simp
  have sent: "Fetch (example_init\<lparr>fetch_method := POST\<rparr>)
       \<in> set (snd (request (example_host False (Rejected (TypeError ''fetch failed''))) example_config
                    ''/wallets'' (example_options\<lparr>http_method := Some POST, body := JsBody (Str [])\<rparr>)))"
    by code_simp
  note t = falsy_body_is_not_sent [OF falsy,
      of "example_host False (Rejected (TypeError ''fetch failed''))"
         "[(''content-type'', ''application/json'')]" example_config "''/wallets''"
         "example_options\<lparr>http_method := Some POST\<rparr>"
         "example_init\<lparr>fetch_method := POST\<rparr>"]
  from t sent have "fetch_body (example_init\<lparr>fetch_method := POST\<rparr>) = None" by simp
  with t falsy sent show ?thesis by simp
qed

end
